theory Spec2Isabelle
  imports Complex_Main
begin

section \<open>Batch multi-model question assessment (xlwings\_lite\_scripts/main\_v2.py)\<close>

text \<open>
  A shallow embedding of the batch assessment pipeline of \<^verbatim>\<open>main_v2.py\<close>:
  the request builder inside \<^verbatim>\<open>call_openrouter_api\<close>, the batch parser
  \<^verbatim>\<open>parse_llm_batch_response\<close>, the reconciler \<^verbatim>\<open>assess_question_batch\<close>,
  the orchestrator \<^verbatim>\<open>assess_questions\<close> and the per-model figures of
  \<^verbatim>\<open>build_and_write_dashboard\<close>.

  Conventions. Python exceptions are values of \<open>error\<close> and a function that can raise
  returns \<open>error + 'a\<close>. Python values that come out of \<^verbatim>\<open>json.loads\<close> are values of
  \<open>json\<close>. Text is ASCII (\<open>string\<close>). Python floats (latency, prices) are idealised
  as reals. Console output is not modelled.
\<close>

subsection \<open>Python slices and strings\<close>

text \<open>\<^verbatim>\<open>xs[a:b]\<close> for any integers: a negative bound counts from the end, and both
  bounds are cut to the length of the list.\<close>

definition slice_bound :: "int \<Rightarrow> int \<Rightarrow> int" where
  "slice_bound n a = (if a < 0 then max 0 (n + a) else min a n)"

definition py_slice :: "int \<Rightarrow> int \<Rightarrow> 'a list \<Rightarrow> 'a list" where
  "py_slice a b xs =
     (let n = int (length xs); lo = slice_bound n a; hi = slice_bound n b
      in take (nat (hi - lo)) (drop (nat lo) xs))"

text \<open>\<^verbatim>\<open>str.strip()\<close> removes leading and trailing white space; on ASCII text
  these are the characters for which \<^verbatim>\<open>str.isspace()\<close> holds.\<close>

definition is_space :: "char \<Rightarrow> bool" where
  "is_space c = (c \<in> set [CHR '' '', CHR 0x09, CHR 0x0A, CHR 0x0B, CHR 0x0C, CHR 0x0D,
                             CHR 0x1C, CHR 0x1D, CHR 0x1E, CHR 0x1F])"

definition strip :: "string \<Rightarrow> string" where
  "strip s = rev (dropWhile is_space (rev (dropWhile is_space s)))"

definition startswith :: "string \<Rightarrow> string \<Rightarrow> bool" where
  "startswith s p = (take (length p) s = p)"

definition endswith :: "string \<Rightarrow> string \<Rightarrow> bool" where
  "endswith s p = (length p \<le> length s \<and> drop (length s - length p) s = p)"

text \<open>\<^verbatim>\<open>p in s\<close> on strings: \<open>p\<close> occurs in \<open>s\<close> as a substring.\<close>

fun contains :: "string \<Rightarrow> string \<Rightarrow> bool" where
  "contains [] p = (p = [])"
| "contains (c # cs) p = (startswith (c # cs) p \<or> contains cs p)"

text \<open>\<^verbatim>\<open>str.lower()\<close> on ASCII text.\<close>

definition lower_char :: "char \<Rightarrow> char" where
  "lower_char c =
     (let n = (of_char c :: nat) in if 65 \<le> n \<and> n \<le> 90 then char_of (n + 32) else c)"

definition lower :: "string \<Rightarrow> string" where
  "lower s = map lower_char s"

text \<open>\<^verbatim>\<open>s.split(',')\<close>: the pieces between commas; the empty text gives one empty piece.\<close>

fun split_comma :: "string \<Rightarrow> string list" where
  "split_comma [] = [[]]"
| "split_comma (c # cs) =
     (if c = CHR '','' then [] # split_comma cs
      else (case split_comma cs of
              [] \<Rightarrow> [[c]]
            | w # ws \<Rightarrow> (c # w) # ws))"

text \<open>\<^verbatim>\<open>s.find(c)\<close> and \<^verbatim>\<open>s.rfind(c)\<close> for one character; \<open>None\<close> stands for \<open>-1\<close>.\<close>

fun find_char :: "char \<Rightarrow> string \<Rightarrow> nat option" where
  "find_char c [] = None"
| "find_char c (x # xs) =
     (if x = c then Some 0 else map_option Suc (find_char c xs))"

definition rfind_char :: "char \<Rightarrow> string \<Rightarrow> nat option" where
  "rfind_char c s = map_option (\<lambda>i. length s - 1 - i) (find_char c (rev s))"

text \<open>\<^verbatim>\<open>int(s)\<close> on a text: white space around, an optional sign, then decimal digits
  that single underscores may separate; anything else raises \<^verbatim>\<open>ValueError\<close>
  (\<open>None\<close> here).\<close>

definition is_digit :: "char \<Rightarrow> bool" where
  "is_digit c = (48 \<le> (of_char c :: nat) \<and> (of_char c :: nat) \<le> 57)"

fun digits_ok :: "string \<Rightarrow> bool" where
  "digits_ok [] = False"
| "digits_ok [c] = is_digit c"
| "digits_ok (c # d # cs) =
     (if is_digit c then (if d = CHR ''_'' then digits_ok cs else digits_ok (d # cs))
      else False)"

definition digits_value :: "string \<Rightarrow> int" where
  "digits_value s =
     foldl (\<lambda>acc c. 10 * acc + (int (of_char c) - 48)) 0 (filter is_digit s)"

definition int_of_text :: "string \<Rightarrow> int option" where
  "int_of_text s =
     (case strip s of
        [] \<Rightarrow> None
      | c # cs \<Rightarrow>
          (if c = CHR ''-'' then (if digits_ok cs then Some (- digits_value cs) else None)
           else if c = CHR ''+'' then (if digits_ok cs then Some (digits_value cs) else None)
           else if digits_ok (c # cs) then Some (digits_value (c # cs)) else None))"

text \<open>\<^verbatim>\<open>int(x)\<close> on a float cuts the fraction off (rounds towards zero).\<close>

definition int_of_float :: "real \<Rightarrow> int" where
  "int_of_float x = (if 0 \<le> x then \<lfloor>x\<rfloor> else \<lceil>x\<rceil>)"

subsection \<open>Errors\<close>

datatype error =
    ValueError string
  | AttributeError
  | TypeError
  | IndexError
  | ZeroDivisionError

subsection \<open>Values read from JSON\<close>

text \<open>
  What \<^verbatim>\<open>json.loads\<close> builds: \<open>JNull\<close> is Python's \<^verbatim>\<open>None\<close>, a \<open>JObj\<close> is a
  \<^verbatim>\<open>dict\<close> given by its items (each key once), a \<open>JArr\<close> is a \<^verbatim>\<open>list\<close>. Numbers are
  integers; floats are left out.
\<close>

datatype json =
    JNull
  | JBool bool
  | JNum int
  | JStr string
  | JArr "json list"
  | JObj "(string \<times> json) list"

text \<open>\<^verbatim>\<open>d.get(k)\<close> on the items of a dict.\<close>

definition dict_get :: "(string \<times> json) list \<Rightarrow> string \<Rightarrow> json option" where
  "dict_get d k = map_of d k"

text \<open>
  Keys of a Python dict, as a question identifier is one: Python compares and hashes
  \<^verbatim>\<open>True\<close> as \<open>1\<close> and \<^verbatim>\<open>False\<close> as \<open>0\<close>; lists and dicts are unhashable
  (\<^verbatim>\<open>TypeError\<close>, \<open>None\<close> here).
\<close>

datatype key = KNone | KInt int | KStr string

fun key_of :: "json \<Rightarrow> key option" where
  "key_of JNull = Some KNone"
| "key_of (JBool b) = Some (KInt (if b then 1 else 0))"
| "key_of (JNum n) = Some (KInt n)"
| "key_of (JStr s) = Some (KStr s)"
| "key_of (JArr xs) = None"
| "key_of (JObj d) = None"

text \<open>\<^verbatim>\<open>v == 1\<close> and \<^verbatim>\<open>v in [0, 1]\<close> on such a value.\<close>

fun py_eq_int :: "json \<Rightarrow> int \<Rightarrow> bool" where
  "py_eq_int (JNum n) k = (n = k)"
| "py_eq_int (JBool b) k = ((if b then 1 else 0) = k)"
| "py_eq_int v k = False"

subsection \<open>Configuration\<close>

text \<open>A cell of the MASTER sheet as xlwings hands it over: empty, a number (a float)
  or a text.\<close>

datatype cell = CellNone | CellNum real | CellStr string

datatype model_key = Model_1 | Model_2 | Model_3

text \<open>The entries of the \<^verbatim>\<open>config\<close> dict that the pipeline reads. Sampling parameters,
  API key and system prompt are passed through to the request unchanged and are left
  out.\<close>

record config =
  model_1 :: string
  model_2 :: string
  model_3 :: string
  model_1_tag :: int
  model_2_tag :: int
  model_3_tag :: int
  batch_size :: int
  start_row :: int
  end_row :: "int option"
  thinking_budget_gemini :: cell
  reasoning_effort_openai :: string

text \<open>\<^verbatim>\<open>config[model_key]\<close> and \<^verbatim>\<open>config.get(f'{model_key}_tag')\<close>.\<close>

fun config_model :: "config \<Rightarrow> model_key \<Rightarrow> string" where
  "config_model cfg Model_1 = model_1 cfg"
| "config_model cfg Model_2 = model_2 cfg"
| "config_model cfg Model_3 = model_3 cfg"

fun config_tag :: "config \<Rightarrow> model_key \<Rightarrow> int" where
  "config_tag cfg Model_1 = model_1_tag cfg"
| "config_tag cfg Model_2 = model_2_tag cfg"
| "config_tag cfg Model_3 = model_3_tag cfg"

text \<open>\<^verbatim>\<open>for model_key in ['model_1', 'model_2', 'model_3']\<close>\<close>

definition model_keys :: "model_key list" where
  "model_keys = [Model_1, Model_2, Model_3]"

text \<open>
  \<^verbatim>\<open>
  def get_short_model_name(full_model_string):
      if '/' in full_model_string:
          return full_model_string.split('/')[-1]
      return full_model_string
  \<close>
  The last piece after a slash is what follows the last slash.
\<close>

definition get_short_model_name :: "string \<Rightarrow> string" where
  "get_short_model_name full_model_string =
     (if CHR ''/'' \<in> set full_model_string
      then rev (takeWhile (\<lambda>c. c \<noteq> CHR ''/'') (rev full_model_string))
      else full_model_string)"

text \<open>The two columns of the T\_COST table that \<^verbatim>\<open>assess_questions\<close> turns into
  lookups: \<^verbatim>\<open>THINKING\<close> (a number) and \<^verbatim>\<open>THINKING_VALUES\<close> (a text, blank cells
  already replaced by the empty text).\<close>

type_synonym thinking_models_lookup = "string \<rightharpoonup> int"
type_synonym thinking_values_lookup = "string \<rightharpoonup> string"

subsection \<open>Batching (Step 4 to Step 6 of \<^verbatim>\<open>assess_questions\<close>)\<close>

text \<open>
  \<^verbatim>\<open>
  start_idx = config['start_row'] - 2
  if start_idx < 0: start_idx = 0
  end_idx = len(df_all)
  if config['end_row'] is None: ...
  else:
      end_idx = config['end_row'] - 1
      if end_idx > len(df_all): end_idx = len(df_all)
  df_to_process = df_all.iloc[start_idx:end_idx].copy()
  \<close>
\<close>

definition df_to_process :: "config \<Rightarrow> 'a list \<Rightarrow> 'a list" where
  "df_to_process cfg df_all =
     (let start_idx = (if start_row cfg - 2 < 0 then 0 else start_row cfg - 2);
          end_idx = (case end_row cfg of
                       None \<Rightarrow> int (length df_all)
                     | Some e \<Rightarrow> (if e - 1 > int (length df_all) then int (length df_all) else e - 1))
      in py_slice start_idx end_idx df_all)"

text \<open>
  \<^verbatim>\<open>
  total_batches = (len(df_to_process) + batch_size - 1) // batch_size
  for i in range(total_batches):
      batch_start_index = i * batch_size
      batch_end_index = batch_start_index + batch_size
      batch_df = df_to_process.iloc[batch_start_index:batch_end_index]
  \<close>
  Python's \<^verbatim>\<open>//\<close> is floor division, as \<open>div\<close> on \<open>int\<close> is; a zero batch size raises.
\<close>

definition total_batches :: "nat \<Rightarrow> int \<Rightarrow> error + int" where
  "total_batches len bsize =
     (if bsize = 0 then Inl ZeroDivisionError
      else Inr ((int len + bsize - 1) div bsize))"

definition batch_df :: "'a list \<Rightarrow> int \<Rightarrow> int \<Rightarrow> 'a list" where
  "batch_df df bsize i = py_slice (i * bsize) (i * bsize + bsize) df"

definition batches :: "'a list \<Rightarrow> int \<Rightarrow> error + 'a list list" where
  "batches df bsize =
     (case total_batches (length df) bsize of
        Inl e \<Rightarrow> Inl e
      | Inr t \<Rightarrow> Inr (map (\<lambda>i. batch_df df bsize (int i)) [0..<nat t]))"

subsection \<open>Request builder (the first part of \<^verbatim>\<open>call_openrouter_api\<close>)\<close>

text \<open>A row of T\_QUESTIONS: its identifier, and the six texts (question, answers 1 to
  5, after \<^verbatim>\<open>_clean_text\<close>) that the result rows show as the original.\<close>

record item =
  questionid :: key
  original_content :: "string list"

text \<open>The request body. \<open>messages\<close> stands for the system prompt and the JSON text
  that \<^verbatim>\<open>prepare_question_batch_payload\<close> makes of the batch; the batch itself is
  kept here. The optional keys \<^verbatim>\<open>thinking_budget\<close> and \<^verbatim>\<open>reasoning_effort\<close> are
  \<open>None\<close> when the key is not in the payload.\<close>

record payload =
  model :: string
  messages :: "item list"
  thinking_budget :: "int option"
  reasoning_effort :: "string option"

text \<open>
  \<^verbatim>\<open>
  budget_val = config.get('thinking_budget_gemini')
  if budget_val is None or str(budget_val).strip() == '':
      budget = 0
  else:
      budget = int(budget_val)
  \<close>
\<close>

definition gemini_budget :: "cell \<Rightarrow> error + int" where
  "gemini_budget budget_val =
     (case budget_val of
        CellNone \<Rightarrow> Inr 0
      | CellNum x \<Rightarrow> Inr (int_of_float x)
      | CellStr s \<Rightarrow>
          (if strip s = [] then Inr 0
           else (case int_of_text s of
                   None \<Rightarrow> Inl (ValueError ''invalid literal for int()'')
                 | Some n \<Rightarrow> Inr n)))"

text \<open>
  \<^verbatim>\<open>
  # Apply clamping/capping logic only for positive budgets
  if budget > 0:
      is_pro = 'pro' in model_name.lower()
      min_val = 128 if is_pro else 512
      max_val = 32768 if is_pro else 24576
      if budget < min_val: budget = min_val
      elif budget > max_val: budget = max_val
  \<close>
\<close>

definition min_val :: "string \<Rightarrow> int" where
  "min_val model_name = (if contains (lower model_name) ''pro'' then 128 else 512)"

definition max_val :: "string \<Rightarrow> int" where
  "max_val model_name = (if contains (lower model_name) ''pro'' then 32768 else 24576)"

definition clamp_budget :: "string \<Rightarrow> int \<Rightarrow> int" where
  "clamp_budget model_name budget =
     (if budget > 0 then
        (if budget < min_val model_name then min_val model_name
         else if budget > max_val model_name then max_val model_name
         else budget)
      else budget)"

text \<open>
  \<^verbatim>\<open>
  user_effort = config.get('reasoning_effort_openai')
  if user_effort and user_effort.strip():
      valid_efforts_str = thinking_values_lookup.get(model_name)
      if not valid_efforts_str or not str(valid_efforts_str).strip():
          raise ValueError(f"Model '{model_name}' does not support the 'reasoning_effort' parameter, ...")
      valid_efforts = [v.strip() for v in str(valid_efforts_str).split(',')]
      if user_effort not in valid_efforts:
          raise ValueError(f"Invalid reasoning_effort '{user_effort}' for model '{model_name}'. ...")
      payload['reasoning_effort'] = user_effort
  \<close>
  The two messages are shortened to their fixed part.
\<close>

definition valid_efforts :: "string \<Rightarrow> string list" where
  "valid_efforts valid_efforts_str = map strip (split_comma valid_efforts_str)"

definition openai_effort :: "config \<Rightarrow> thinking_values_lookup \<Rightarrow> string \<Rightarrow> error + string option" where
  "openai_effort cfg tv model_name =
     (let user_effort = reasoning_effort_openai cfg in
      if user_effort \<noteq> [] \<and> strip user_effort \<noteq> [] then
        (case tv model_name of
           None \<Rightarrow> Inl (ValueError ''does not support the reasoning_effort parameter'')
         | Some valid_efforts_str \<Rightarrow>
             (if valid_efforts_str = [] \<or> strip valid_efforts_str = []
              then Inl (ValueError ''does not support the reasoning_effort parameter'')
              else if user_effort \<notin> set (valid_efforts valid_efforts_str)
              then Inl (ValueError ''Invalid reasoning_effort'')
              else Inr (Some user_effort)))
      else Inr None)"

text \<open>
  \<^verbatim>\<open>
  is_thinking_model = thinking_models_lookup.get(model_name) == 1
  if is_thinking_model:
      if model_name.startswith('google/'):
          ...
          if budget != 0: payload['thinking_budget'] = budget
      elif model_name.startswith('openai/'):
          ...
  \<close>
\<close>

definition build_payload ::
  "config \<Rightarrow> thinking_models_lookup \<Rightarrow> thinking_values_lookup \<Rightarrow> string \<Rightarrow> item list
     \<Rightarrow> error + payload" where
  "build_payload cfg tm tv model_name msgs =
     (let base = \<lparr>model = model_name, messages = msgs,
                   thinking_budget = None, reasoning_effort = None\<rparr>;
          is_thinking_model = (tm model_name = Some 1)
      in if is_thinking_model then
           (if startswith model_name ''google/'' then
              (case gemini_budget (thinking_budget_gemini cfg) of
                 Inl e \<Rightarrow> Inl e
               | Inr budget0 \<Rightarrow>
                   (let budget = clamp_budget model_name budget0
                    in if budget \<noteq> 0 then Inr (base\<lparr>thinking_budget := Some budget\<rparr>)
                       else Inr base))
            else if startswith model_name ''openai/'' then
              (case openai_effort cfg tv model_name of
                 Inl e \<Rightarrow> Inl e
               | Inr None \<Rightarrow> Inr base
               | Inr (Some user_effort) \<Rightarrow> Inr (base\<lparr>reasoning_effort := Some user_effort\<rparr>))
            else Inr base)
         else Inr base)"

subsection \<open>Model gateway (the second part of \<^verbatim>\<open>call_openrouter_api\<close>)\<close>

text \<open>
  The \<^verbatim>\<open>usage\<close> object of a response, by the keys the pipeline reads; \<open>None\<close> is an
  absent key. \<open>reasoning_tokens_nested\<close> is
  \<^verbatim>\<open>completion_tokens_details.reasoning_tokens\<close>. Token counts that are present are
  integers.
\<close>

record usage =
  prompt_tokens :: "int option"
  completion_tokens :: "int option"
  total_tokens :: "int option"
  reasoning_tokens_nested :: "int option"
  reasoning_tokens :: "int option"
  thinking_tokens :: "int option"

text \<open>
  What \<^verbatim>\<open>response["choices"][0]["message"]["content"]\<close> gives: the path does not exist
  (\<^verbatim>\<open>KeyError\<close>, \<^verbatim>\<open>IndexError\<close> or \<^verbatim>\<open>TypeError\<close>), or it leads to a value that is
  not a text (such as \<^verbatim>\<open>null\<close>), or to a text.
\<close>

datatype content_field = NoContent | NonText | Text string

record response =
  content :: content_field
  usage :: usage

text \<open>
  The outcome of one call, \<^verbatim>\<open>(response_json, error_message, latency)\<close>: either a
  response and no message, or no response and a message. The network is a function
  of the number of requests sent before and of the request: whatever
  \<^verbatim>\<open>requests.post\<close> and the classification of its result return for it.
\<close>

datatype api_outcome = ApiSuccess response real | ApiFailure string real

type_synonym gateway = "nat \<Rightarrow> payload \<Rightarrow> api_outcome"

text \<open>The requests sent so far are the state; a request that cannot be built raises
  before anything is sent.\<close>

definition call_openrouter_api ::
  "gateway \<Rightarrow> config \<Rightarrow> thinking_models_lookup \<Rightarrow> thinking_values_lookup \<Rightarrow> string
     \<Rightarrow> item list \<Rightarrow> payload list \<Rightarrow> (error + api_outcome) \<times> payload list" where
  "call_openrouter_api net cfg tm tv model_name msgs calls =
     (case build_payload cfg tm tv model_name msgs of
        Inl e \<Rightarrow> (Inl e, calls)
      | Inr p \<Rightarrow> (Inr (net (length calls) p), calls @ [p]))"

subsection \<open>Response parser (\<^verbatim>\<open>parse_llm_batch_response\<close>)\<close>

text \<open>The code fence marker, three backquotes.\<close>

definition fence :: string where
  "fence = [CHR 0x60, CHR 0x60, CHR 0x60]"

text \<open>
  \<^verbatim>\<open>
  content = content.strip()
  if content.startswith(FENCE + "json"): content = content[7:].strip()
  elif content.startswith(FENCE): content = content[3:].strip()
  if content.endswith(FENCE): content = content[:-3].strip()
  if not content.startswith('['):
      start_idx = content.find('[')
      if start_idx != -1:
          end_idx = content.rfind(']')
          if end_idx != -1:
              content = content[start_idx:end_idx+1]
  \<close>
  (\<^verbatim>\<open>FENCE\<close> written for the three backquotes.)
\<close>

definition strip_fences :: "string \<Rightarrow> string" where
  "strip_fences content0 =
     (let content1 = strip content0;
          content2 = (if startswith content1 (fence @ ''json'') then strip (drop 7 content1)
                      else if startswith content1 fence then strip (drop 3 content1)
                      else content1)
      in if endswith content2 fence then strip (py_slice 0 (- 3) content2) else content2)"

definition extract_array :: "string \<Rightarrow> string" where
  "extract_array txt =
     (if \<not> startswith txt ''['' then
        (case find_char (CHR ''['') txt of
           None \<Rightarrow> txt
         | Some start_idx \<Rightarrow>
             (case rfind_char (CHR '']'') txt of
                None \<Rightarrow> txt
              | Some end_idx \<Rightarrow> py_slice (int start_idx) (int end_idx + 1) txt))
      else txt)"

definition clean_content :: "string \<Rightarrow> string" where
  "clean_content content0 = extract_array (strip_fences content0)"

text \<open>
  \<^verbatim>\<open>
  for item in parsed_array:
      if 'questionid' in item:
          results_map[item['questionid']] = item
      else:
          print("   [WARN] Found a result item without a questionid, it will be ignored.")
  \<close>
  \<open>None\<close> is a \<^verbatim>\<open>TypeError\<close>: \<^verbatim>\<open>in\<close> on a number, a boolean or \<^verbatim>\<open>None\<close>;
  \<^verbatim>\<open>item['questionid']\<close> on a text or a list that passed the \<^verbatim>\<open>in\<close> test; an
  identifier that cannot be a dict key.
\<close>

type_synonym results_map = "key \<rightharpoonup> (string \<times> json) list"

fun map_results :: "json list \<Rightarrow> results_map \<Rightarrow> results_map option" where
  "map_results [] results_map = Some results_map"
| "map_results (JObj d # rest) results_map =
     (case dict_get d ''questionid'' of
        None \<Rightarrow> map_results rest results_map
      | Some v \<Rightarrow>
          (case key_of v of
             None \<Rightarrow> None
           | Some k \<Rightarrow> map_results rest (results_map(k \<mapsto> d))))"
| "map_results (JStr s # rest) results_map =
     (if contains s ''questionid'' then None else map_results rest results_map)"
| "map_results (JArr xs # rest) results_map =
     (if JStr ''questionid'' \<in> set xs then None else map_results rest results_map)"
| "map_results (JNull # rest) results_map = None"
| "map_results (JBool b # rest) results_map = None"
| "map_results (JNum n # rest) results_map = None"

text \<open>
  The parser proper. \<open>loads\<close> is \<^verbatim>\<open>json.loads\<close>, \<open>None\<close> when it raises
  \<^verbatim>\<open>JSONDecodeError\<close>. The result is the pair \<^verbatim>\<open>(results_map, error)\<close>. The
  handler catches \<^verbatim>\<open>KeyError\<close>, \<^verbatim>\<open>IndexError\<close>, \<^verbatim>\<open>JSONDecodeError\<close> and
  \<^verbatim>\<open>TypeError\<close> and returns \<^verbatim>\<open>({}, "Failed to parse LLM batch response: ...")\<close>
  (the message is shortened to its fixed part); \<^verbatim>\<open>content.strip()\<close> on a content
  that is not a text raises \<^verbatim>\<open>AttributeError\<close>, which it does not catch. The
  batch is only read for a console warning and is left out.
\<close>

definition parse_failed :: string where
  "parse_failed = ''Failed to parse LLM batch response''"

definition not_an_array :: string where
  "not_an_array = ''LLM response was not a JSON array.''"

definition parse_llm_batch_response ::
  "(string \<Rightarrow> json option) \<Rightarrow> response option \<Rightarrow> error + (results_map \<times> string option)" where
  "parse_llm_batch_response loads resp =
     (case resp of
        None \<Rightarrow> Inr (Map.empty, Some parse_failed)
      | Some r \<Rightarrow>
          (case content r of
             NoContent \<Rightarrow> Inr (Map.empty, Some parse_failed)
           | NonText \<Rightarrow> Inl AttributeError
           | Text c \<Rightarrow>
               (case loads (clean_content c) of
                  None \<Rightarrow> Inr (Map.empty, Some parse_failed)
                | Some (JArr parsed_array) \<Rightarrow>
                    (case map_results parsed_array Map.empty of
                       None \<Rightarrow> Inr (Map.empty, Some parse_failed)
                     | Some results_map \<Rightarrow> Inr (results_map, None))
                | Some _ \<Rightarrow> Inr (Map.empty, Some not_an_array))))"

subsection \<open>The single-response parser (\<^verbatim>\<open>parse_llm_response\<close>)\<close>

text \<open>
  \<^verbatim>\<open>parse_llm_response\<close> is the parser of a response that holds one object. The batch
  pipeline does not call it. Modelled here is what it does with the value
  \<^verbatim>\<open>json.loads\<close> returned (from \<^verbatim>\<open># Validate top-level structure\<close> to
  \<^verbatim>\<open>return parsed\<close>); \<open>Inr None\<close> is its \<^verbatim>\<open>return None\<close>, \<open>Inl\<close> an exception its
  handler does not catch.
\<close>

text \<open>\<^verbatim>\<open>k in parsed\<close>: a key of a dict, a substring of a text, an element of a list;
  \<^verbatim>\<open>TypeError\<close> on anything else.\<close>

fun py_in :: "string \<Rightarrow> json \<Rightarrow> error + bool" where
  "py_in k (JObj d) = Inr (dict_get d k \<noteq> None)"
| "py_in k (JStr s) = Inr (contains s k)"
| "py_in k (JArr xs) = Inr (JStr k \<in> set xs)"
| "py_in k JNull = Inl TypeError"
| "py_in k (JBool b) = Inl TypeError"
| "py_in k (JNum n) = Inl TypeError"

text \<open>\<^verbatim>\<open>d[k] = v\<close>: the value of an existing key is replaced in place, a new key is
  added at the end.\<close>

definition dict_set :: "(string \<times> json) list \<Rightarrow> string \<Rightarrow> json \<Rightarrow> (string \<times> json) list" where
  "dict_set d k v =
     (if k \<in> fst ` set d then map (\<lambda>(k', v'). if k' = k then (k', v) else (k', v')) d
      else d @ [(k, v)])"

text \<open>\<^verbatim>\<open>item_feedback.get(part, '').strip() == ''\<close>: a value that is not a text has no
  \<^verbatim>\<open>strip\<close>.\<close>

fun blank_text :: "json option \<Rightarrow> error + bool" where
  "blank_text None = Inr True"
| "blank_text (Some (JStr s)) = Inr (strip s = [])"
| "blank_text (Some v) = Inl AttributeError"

text \<open>
  \<^verbatim>\<open>
  for item_key, item_feedback in parsed['feedback'].items():
      if isinstance(item_feedback, dict):
          if item_feedback.get('issue', '').strip() == '' and item_feedback.get('rewrite', '').strip() == '':
              item_feedback['issue'] = 'No changes needed.'
      else:
          parsed['feedback'][item_key] = {"issue": "Invalid feedback format.", "rewrite": ""}
  \<close>
\<close>

definition normalise_entry :: "json \<Rightarrow> error + json" where
  "normalise_entry item_feedback =
     (case item_feedback of
        JObj fb \<Rightarrow>
          (case blank_text (dict_get fb ''issue'') of
             Inl e \<Rightarrow> Inl e
           | Inr issue_blank \<Rightarrow>
               (if issue_blank then
                  (case blank_text (dict_get fb ''rewrite'') of
                     Inl e \<Rightarrow> Inl e
                   | Inr rewrite_blank \<Rightarrow>
                       (if rewrite_blank
                        then Inr (JObj (dict_set fb ''issue'' (JStr ''No changes needed.'')))
                        else Inr (JObj fb)))
                else Inr (JObj fb)))
      | _ \<Rightarrow> Inr (JObj [(''issue'', JStr ''Invalid feedback format.''), (''rewrite'', JStr [])]))"

fun normalise_feedback :: "(string \<times> json) list \<Rightarrow> error + (string \<times> json) list" where
  "normalise_feedback [] = Inr []"
| "normalise_feedback ((item_key, item_feedback) # rest) =
     (case normalise_entry item_feedback of
        Inl e \<Rightarrow> Inl e
      | Inr v \<Rightarrow>
          (case normalise_feedback rest of
             Inl e \<Rightarrow> Inl e
           | Inr rest' \<Rightarrow> Inr ((item_key, v) # rest')))"

text \<open>
  \<^verbatim>\<open>
  required_keys = ["change_required", "feedback"]
  missing_keys = [k for k in required_keys if k not in parsed]
  if missing_keys: return None
  if parsed["change_required"] not in [0, 1]: return None
  if not isinstance(parsed['feedback'], dict) or 'question' not in parsed['feedback']: return None
  ... (the loop above)
  return parsed
  \<close>
  Indexing a text or a list with a key raises \<^verbatim>\<open>TypeError\<close>.
\<close>

definition validate_parsed :: "json \<Rightarrow> error + json option" where
  "validate_parsed parsed =
     (case py_in ''change_required'' parsed of
        Inl e \<Rightarrow> Inl e
      | Inr has_flag \<Rightarrow>
          (case py_in ''feedback'' parsed of
             Inl e \<Rightarrow> Inl e
           | Inr has_feedback \<Rightarrow>
               (if has_flag \<and> has_feedback then
                  (case parsed of
                     JObj d \<Rightarrow>
                       (case dict_get d ''change_required'' of
                          None \<Rightarrow> Inr None
                        | Some flag \<Rightarrow>
                            (if py_eq_int flag 0 \<or> py_eq_int flag 1 then
                               (case dict_get d ''feedback'' of
                                  Some (JObj fb) \<Rightarrow>
                                    (if dict_get fb ''question'' = None then Inr None
                                     else (case normalise_feedback fb of
                                             Inl e \<Rightarrow> Inl e
                                           | Inr fb' \<Rightarrow>
                                               Inr (Some (JObj (dict_set d ''feedback'' (JObj fb'))))))
                                | _ \<Rightarrow> Inr None)
                             else Inr None))
                   | _ \<Rightarrow> Inl TypeError)
                else Inr None)))"

subsection \<open>Reconciler (\<^verbatim>\<open>assess_question_batch\<close>)\<close>

text \<open>The \<^verbatim>\<open>tokens\<close> dict with its keys \<^verbatim>\<open>input\<close>, \<^verbatim>\<open>output\<close>, \<^verbatim>\<open>reasoning\<close> and
  \<^verbatim>\<open>total\<close>.\<close>

record token_counts =
  tok_input :: int
  tok_output :: int
  tok_reasoning :: int
  tok_total :: int

text \<open>
  \<^verbatim>\<open>
  completion_details = usage.get('completion_tokens_details', {})
  reasoning_tokens = completion_details.get('reasoning_tokens', 0)
  if reasoning_tokens == 0: reasoning_tokens = usage.get('reasoning_tokens', 0)
  if reasoning_tokens == 0: reasoning_tokens = usage.get('thinking_tokens', 0)
  tokens = {'input': usage.get('prompt_tokens', 0), 'output': usage.get('completion_tokens', 0),
            'reasoning': reasoning_tokens, 'total': usage.get('total_tokens', 0)}
  \<close>
\<close>

definition or_zero :: "int option \<Rightarrow> int" where
  "or_zero v = (case v of None \<Rightarrow> 0 | Some n \<Rightarrow> n)"

definition extract_tokens :: "usage \<Rightarrow> token_counts" where
  "extract_tokens u =
     (let r1 = or_zero (reasoning_tokens_nested u);
          r2 = (if r1 = 0 then or_zero (reasoning_tokens u) else r1);
          r3 = (if r2 = 0 then or_zero (thinking_tokens u) else r2)
      in \<lparr>tok_input = or_zero (prompt_tokens u), tok_output = or_zero (completion_tokens u),
          tok_reasoning = r3, tok_total = or_zero (total_tokens u)\<rparr>)"

definition no_usage :: usage where
  "no_usage = \<lparr>prompt_tokens = None, completion_tokens = None, total_tokens = None,
                reasoning_tokens_nested = None, reasoning_tokens = None,
                thinking_tokens = None\<rparr>"

text \<open>\<^verbatim>\<open>model_batch_info\<close>, without the archived raw response.\<close>

record model_batch_info =
  info_model_key :: model_key
  info_model_name :: string
  info_latency :: real
  info_tokens :: token_counts

text \<open>
  A verdict is the dict \<^verbatim>\<open>{'error': e, **result_for_qid, **model_batch_info}\<close>: the
  entry written under \<^verbatim>\<open>'error'\<close>, the parsed object spread over it (empty for an
  error verdict) and the batch information spread last.
\<close>

record verdict =
  error_entry :: json
  result_for_qid :: "(string \<times> json) list"
  info :: model_batch_info

text \<open>\<^verbatim>\<open>v.get('error')\<close>, \<^verbatim>\<open>v.get('change_required')\<close> and \<^verbatim>\<open>v.get('feedback', {})\<close>:
  keys of the parsed object override the entry written first.\<close>

definition verdict_error :: "verdict \<Rightarrow> json" where
  "verdict_error v =
     (case dict_get (result_for_qid v) ''error'' of None \<Rightarrow> error_entry v | Some e \<Rightarrow> e)"

definition verdict_change_required :: "verdict \<Rightarrow> json" where
  "verdict_change_required v =
     (case dict_get (result_for_qid v) ''change_required'' of None \<Rightarrow> JNull | Some c \<Rightarrow> c)"

definition verdict_feedback :: "verdict \<Rightarrow> json" where
  "verdict_feedback v =
     (case dict_get (result_for_qid v) ''feedback'' of None \<Rightarrow> JObj [] | Some f \<Rightarrow> f)"

definition error_verdict :: "string \<Rightarrow> model_batch_info \<Rightarrow> verdict" where
  "error_verdict msg i = \<lparr>error_entry = JStr msg, result_for_qid = [], info = i\<rparr>"

definition parsed_verdict :: "(string \<times> json) list \<Rightarrow> model_batch_info \<Rightarrow> verdict" where
  "parsed_verdict d i = \<lparr>error_entry = JNull, result_for_qid = d, info = i\<rparr>"

definition missing_msg :: string where
  "missing_msg = ''Response missing for this questionid''"

text \<open>
  \<^verbatim>\<open>
  result_for_qid = parsed_results_map.get(qid)
  if result_for_qid: ... {'error': None, **result_for_qid, **model_batch_info}
  else: ... {'error': "Response missing for this questionid", **model_batch_info}
  \<close>
\<close>

definition reconcile :: "results_map \<Rightarrow> model_batch_info \<Rightarrow> key \<Rightarrow> verdict" where
  "reconcile parsed_results_map i qid =
     (case parsed_results_map qid of
        None \<Rightarrow> error_verdict missing_msg i
      | Some d \<Rightarrow> (if d \<noteq> [] then parsed_verdict d i else error_verdict missing_msg i))"

text \<open>\<^verbatim>\<open>for qid in batch_df['questionid']: batch_results.setdefault(qid, {})[model_key] = ...\<close>\<close>

type_synonym batch_results = "key \<rightharpoonup> (model_key \<rightharpoonup> verdict)"

fun store_verdicts ::
  "item list \<Rightarrow> model_key \<Rightarrow> (key \<Rightarrow> verdict) \<Rightarrow> batch_results \<Rightarrow> batch_results" where
  "store_verdicts [] mk f batch_results = batch_results"
| "store_verdicts (q # qs) mk f batch_results =
     (let qid = questionid q;
          d = (case batch_results qid of None \<Rightarrow> Map.empty | Some d \<Rightarrow> d)
      in store_verdicts qs mk f (batch_results(qid \<mapsto> d(mk \<mapsto> f qid))))"

text \<open>The three parts of the outcome: \<^verbatim>\<open>response, error, latency = call_openrouter_api(...)\<close>.\<close>

fun outcome_response :: "api_outcome \<Rightarrow> response option" where
  "outcome_response (ApiSuccess r l) = Some r"
| "outcome_response (ApiFailure m l) = None"

fun outcome_error :: "api_outcome \<Rightarrow> string option" where
  "outcome_error (ApiSuccess r l) = None"
| "outcome_error (ApiFailure m l) = Some m"

fun outcome_latency :: "api_outcome \<Rightarrow> real" where
  "outcome_latency (ApiSuccess r l) = l"
| "outcome_latency (ApiFailure m l) = l"

text \<open>\<^verbatim>\<open>usage = response.get('usage', {}) if response else {}\<close> and the batch information
  built from it.\<close>

definition batch_info :: "config \<Rightarrow> model_key \<Rightarrow> api_outcome \<Rightarrow> model_batch_info" where
  "batch_info cfg mk outcome =
     \<lparr>info_model_key = mk, info_model_name = config_model cfg mk,
      info_latency = outcome_latency outcome,
      info_tokens = extract_tokens (case outcome_response outcome of
                                      None \<Rightarrow> no_usage
                                    | Some r \<Rightarrow> usage r)\<rparr>"

text \<open>
  The verdict of every identifier for one model, from the outcome of its call:
  \<^verbatim>\<open>
  if error: ... {'error': error, **model_batch_info} for every qid; continue
  parsed_results_map, parse_error = parse_llm_batch_response(response, batch_df)
  if parse_error: ... {'error': parse_error, **model_batch_info} for every qid; continue
  for qid in batch_df['questionid']: ... (reconcile)
  \<close>
  An empty message is not an error for \<^verbatim>\<open>if error:\<close>; the parser then runs on no
  response.
\<close>

definition model_verdicts ::
  "(string \<Rightarrow> json option) \<Rightarrow> model_batch_info \<Rightarrow> api_outcome \<Rightarrow> error + (key \<Rightarrow> verdict)" where
  "model_verdicts loads i outcome =
     (case outcome_error outcome of
        Some (c # cs) \<Rightarrow> Inr (\<lambda>qid. error_verdict (c # cs) i)
      | _ \<Rightarrow>
          (case parse_llm_batch_response loads (outcome_response outcome) of
             Inl e \<Rightarrow> Inl e
           | Inr (parsed_results_map, parse_error) \<Rightarrow>
               (case parse_error of
                  Some (c # cs) \<Rightarrow> Inr (\<lambda>qid. error_verdict (c # cs) i)
                | _ \<Rightarrow> Inr (reconcile parsed_results_map i))))"

text \<open>The body of the loop over the model keys, for an enabled model.\<close>

definition assess_model ::
  "gateway \<Rightarrow> (string \<Rightarrow> json option) \<Rightarrow> config \<Rightarrow> thinking_models_lookup
     \<Rightarrow> thinking_values_lookup \<Rightarrow> item list \<Rightarrow> model_key \<Rightarrow> batch_results \<Rightarrow> payload list
     \<Rightarrow> (error + batch_results) \<times> payload list" where
  "assess_model net loads cfg tm tv batch mk batch_results calls =
     (case call_openrouter_api net cfg tm tv (config_model cfg mk) batch calls of
        (Inl e, calls') \<Rightarrow> (Inl e, calls')
      | (Inr outcome, calls') \<Rightarrow>
          (case model_verdicts loads (batch_info cfg mk outcome) outcome of
             Inl e \<Rightarrow> (Inl e, calls')
           | Inr f \<Rightarrow> (Inr (store_verdicts batch mk f batch_results), calls')))"

text \<open>
  \<^verbatim>\<open>
  for model_key in ['model_1', 'model_2', 'model_3']:
      if config.get(f'{model_key}_tag') != 1:
          continue
      ...
  \<close>
  An exception leaves the loop and the function.
\<close>

fun assess_models ::
  "gateway \<Rightarrow> (string \<Rightarrow> json option) \<Rightarrow> config \<Rightarrow> thinking_models_lookup
     \<Rightarrow> thinking_values_lookup \<Rightarrow> item list \<Rightarrow> model_key list \<Rightarrow> batch_results \<Rightarrow> payload list
     \<Rightarrow> (error + batch_results) \<times> payload list" where
  "assess_models net loads cfg tm tv batch [] batch_results calls = (Inr batch_results, calls)"
| "assess_models net loads cfg tm tv batch (mk # mks) batch_results calls =
     (if config_tag cfg mk \<noteq> 1 then
        assess_models net loads cfg tm tv batch mks batch_results calls
      else
        (case assess_model net loads cfg tm tv batch mk batch_results calls of
           (Inl e, calls') \<Rightarrow> (Inl e, calls')
         | (Inr batch_results', calls') \<Rightarrow>
             assess_models net loads cfg tm tv batch mks batch_results' calls'))"

definition assess_question_batch ::
  "gateway \<Rightarrow> (string \<Rightarrow> json option) \<Rightarrow> config \<Rightarrow> thinking_models_lookup
     \<Rightarrow> thinking_values_lookup \<Rightarrow> item list \<Rightarrow> payload list
     \<Rightarrow> (error + batch_results) \<times> payload list" where
  "assess_question_batch net loads cfg tm tv batch calls =
     assess_models net loads cfg tm tv batch model_keys Map.empty calls"

subsection \<open>Result rows and batch metrics (Step 6 of \<^verbatim>\<open>assess_questions\<close>)\<close>

text \<open>
  A row of \<^verbatim>\<open>results_data\<close>: the separator \<^verbatim>\<open>{}\<close>, or a row with the columns
  \<^verbatim>\<open>Model\<close>, \<^verbatim>\<open>questionid\<close>, \<^verbatim>\<open>Item\<close>, \<^verbatim>\<open>Change Required?\<close> and the six texts
  \<^verbatim>\<open>Question\<close>, \<^verbatim>\<open>Answer 1\<close> to \<^verbatim>\<open>Answer 5\<close>. \<open>JNull\<close> in the column
  \<^verbatim>\<open>Change Required?\<close> is Python's \<^verbatim>\<open>None\<close>.
\<close>

datatype result_row =
    Separator
  | ResultRow string key string json "json list"

fun row_model :: "result_row \<Rightarrow> string option" where
  "row_model Separator = None"
| "row_model (ResultRow m q i c ts) = Some m"


fun row_change_required :: "result_row \<Rightarrow> json" where
  "row_change_required Separator = JNull"
| "row_change_required (ResultRow m q i c ts) = c"

text \<open>
  \<^verbatim>\<open>feedback.get(field, {}).get(part, default)\<close>: a feedback, or an entry of it, that
  is not a dict has no \<^verbatim>\<open>get\<close> (\<^verbatim>\<open>AttributeError\<close>).
\<close>

definition feedback_part :: "json \<Rightarrow> string \<Rightarrow> string \<Rightarrow> json \<Rightarrow> error + json" where
  "feedback_part feedback field part dflt =
     (case feedback of
        JObj fb \<Rightarrow>
          (case dict_get fb field of
             None \<Rightarrow> Inr dflt
           | Some (JObj entry) \<Rightarrow>
               (case dict_get entry part of None \<Rightarrow> Inr dflt | Some v \<Rightarrow> Inr v)
           | Some _ \<Rightarrow> Inl AttributeError)
      | _ \<Rightarrow> Inl AttributeError)"

fun collect :: "(error + 'a) list \<Rightarrow> error + 'a list" where
  "collect [] = Inr []"
| "collect (Inl e # rs) = Inl e"
| "collect (Inr x # rs) = (case collect rs of Inl e \<Rightarrow> Inl e | Inr xs \<Rightarrow> Inr (x # xs))"

definition answer_fields :: "string list" where
  "answer_fields = [''answer1'', ''answer2'', ''answer3'', ''answer4'', ''answer5'']"

text \<open>
  The rows of one question for one enabled model; \<open>vo\<close> is
  \<^verbatim>\<open>assessment_for_question.get(model_key, {})\<close>, \<open>None\<close> for the empty dict.
  \<^verbatim>\<open>
  change_required_val = model_result.get('change_required')
  feedback = model_result.get('feedback', {})
  results_data.append({'Model': ..., 'Item': 'Original', 'Change Required?': change_required_val, **original_content})
  results_data.append({... 'Item': 'Rewrite', ...
      'Question': feedback.get('question', {}).get('rewrite', ''),
      **{f'Answer {j}': feedback.get(f'answer{j}', {}).get('rewrite', '') for j in range(1, 6)}})
  results_data.append({... 'Item': 'Issues', ...
      'Question': feedback.get('question', {}).get('issue', model_result.get('error', '')),
      **{f'Answer {j}': feedback.get(f'answer{j}', {}).get('issue', '') for j in range(1, 6)}})
  results_data.append({}) # Separator row
  \<close>
  An exception ends the run and the rows collected so far are never written, so the
  four rows are built together.
\<close>

definition item_rows :: "config \<Rightarrow> model_key \<Rightarrow> item \<Rightarrow> verdict option \<Rightarrow> error + result_row list" where
  "item_rows cfg mk q vo =
     (let display_model_name = get_short_model_name (config_model cfg mk);
          question_id = questionid q;
          change_required_val = (case vo of None \<Rightarrow> JNull | Some v \<Rightarrow> verdict_change_required v);
          feedback = (case vo of None \<Rightarrow> JObj [] | Some v \<Rightarrow> verdict_feedback v);
          error_dflt = (case vo of None \<Rightarrow> JStr [] | Some v \<Rightarrow> verdict_error v)
      in case collect (feedback_part feedback ''question'' ''rewrite'' (JStr [])
                       # map (\<lambda>a. feedback_part feedback a ''rewrite'' (JStr [])) answer_fields) of
           Inl e \<Rightarrow> Inl e
         | Inr rewrites \<Rightarrow>
             (case collect (feedback_part feedback ''question'' ''issue'' error_dflt
                            # map (\<lambda>a. feedback_part feedback a ''issue'' (JStr [])) answer_fields) of
                Inl e \<Rightarrow> Inl e
              | Inr issues \<Rightarrow>
                  Inr [ResultRow display_model_name question_id ''Original'' change_required_val
                         (map JStr (original_content q)),
                       ResultRow display_model_name question_id ''Rewrite'' change_required_val rewrites,
                       ResultRow display_model_name question_id ''Issues'' change_required_val issues,
                       Separator]))"

text \<open>\<^verbatim>\<open>for model_key in ['model_1', 'model_2', 'model_3']: if config.get(...) != 1: continue ...\<close>
  for one question, and \<^verbatim>\<open>for _, row in batch_df.iterrows(): ...\<close> around it.\<close>

fun question_rows :: "config \<Rightarrow> item \<Rightarrow> (model_key \<rightharpoonup> verdict) \<Rightarrow> model_key list \<Rightarrow> error + result_row list" where
  "question_rows cfg q assessment [] = Inr []"
| "question_rows cfg q assessment (mk # mks) =
     (if config_tag cfg mk \<noteq> 1 then question_rows cfg q assessment mks
      else (case item_rows cfg mk q (assessment mk) of
              Inl e \<Rightarrow> Inl e
            | Inr rows \<Rightarrow>
                (case question_rows cfg q assessment mks of
                   Inl e \<Rightarrow> Inl e
                 | Inr rest \<Rightarrow> Inr (rows @ rest))))"

fun batch_rows :: "config \<Rightarrow> batch_results \<Rightarrow> item list \<Rightarrow> error + result_row list" where
  "batch_rows cfg batch_assessment_results [] = Inr []"
| "batch_rows cfg batch_assessment_results (q # qs) =
     (let assessment_for_question =
            (case batch_assessment_results (questionid q) of None \<Rightarrow> Map.empty | Some d \<Rightarrow> d)
      in case question_rows cfg q assessment_for_question model_keys of
           Inl e \<Rightarrow> Inl e
         | Inr rows \<Rightarrow>
             (case batch_rows cfg batch_assessment_results qs of
                Inl e \<Rightarrow> Inl e
              | Inr rest \<Rightarrow> Inr (rows @ rest)))"

text \<open>\<^verbatim>\<open>round(x, 2)\<close>: to the nearest hundredth, a tie to the even one.\<close>

definition round_half_even :: "real \<Rightarrow> int" where
  "round_half_even x =
     (let f = \<lfloor>x\<rfloor>; d = x - of_int f
      in if d < 1 / 2 then f else if 1 / 2 < d then f + 1 else if even f then f else f + 1)"

definition round2 :: "real \<Rightarrow> real" where
  "round2 x = of_int (round_half_even (x * 100)) / 100"

text \<open>A row of \<^verbatim>\<open>api_metrics_data\<close>, without its time stamp, raw response and error
  message. \<open>Question_ID\<close> holds the batch number \<open>n\<close> of \<^verbatim>\<open>Batch_n\<close>.\<close>

record metrics_row =
  Question_ID :: nat
  Model_Name :: string
  Model_Key :: model_key
  Status :: string
  Input_Tokens :: int
  Output_Tokens :: int
  Reasoning_Tokens :: int
  Total_Tokens :: int
  Latency_Seconds :: real

text \<open>
  \<^verbatim>\<open>
  'Status': 'SUCCESS' if model_result_for_first_q.get('error') is None else 'ERROR'
  \<close>
\<close>

definition metrics_of :: "nat \<Rightarrow> model_key \<Rightarrow> verdict \<Rightarrow> metrics_row" where
  "metrics_of batch_num mk model_result_for_first_q =
     \<lparr>Question_ID = batch_num,
      Model_Name = info_model_name (info model_result_for_first_q),
      Model_Key = mk,
      Status = (if verdict_error model_result_for_first_q = JNull then ''SUCCESS'' else ''ERROR''),
      Input_Tokens = tok_input (info_tokens (info model_result_for_first_q)),
      Output_Tokens = tok_output (info_tokens (info model_result_for_first_q)),
      Reasoning_Tokens = tok_reasoning (info_tokens (info model_result_for_first_q)),
      Total_Tokens = tok_total (info_tokens (info model_result_for_first_q)),
      Latency_Seconds = round2 (info_latency (info model_result_for_first_q))\<rparr>"

text \<open>
  \<^verbatim>\<open>
  # Log API metrics ONCE per batch, per model
  for model_key in ['model_1', 'model_2', 'model_3']:
      if config.get(f'{model_key}_tag') != 1: continue
      first_qid_in_batch = batch_df['questionid'].iloc[0]
      model_result_for_first_q = batch_assessment_results.get(first_qid_in_batch, {}).get(model_key)
      if model_result_for_first_q:
          api_metrics_data.append({...})
  \<close>
\<close>

fun batch_metrics ::
  "config \<Rightarrow> nat \<Rightarrow> item list \<Rightarrow> batch_results \<Rightarrow> model_key list \<Rightarrow> error + metrics_row list" where
  "batch_metrics cfg batch_num batch batch_assessment_results [] = Inr []"
| "batch_metrics cfg batch_num batch batch_assessment_results (mk # mks) =
     (if config_tag cfg mk \<noteq> 1 then batch_metrics cfg batch_num batch batch_assessment_results mks
      else (case batch of
              [] \<Rightarrow> Inl IndexError
            | q # qs \<Rightarrow>
                (let first_qid_in_batch = questionid q;
                     model_result_for_first_q =
                       (case batch_assessment_results first_qid_in_batch of
                          None \<Rightarrow> None
                        | Some d \<Rightarrow> d mk)
                 in case batch_metrics cfg batch_num batch batch_assessment_results mks of
                      Inl e \<Rightarrow> Inl e
                    | Inr rest \<Rightarrow>
                        Inr ((case model_result_for_first_q of
                                None \<Rightarrow> []
                              | Some v \<Rightarrow> [metrics_of batch_num mk v]) @ rest))))"

subsection \<open>Orchestrator (\<^verbatim>\<open>assess_questions\<close>)\<close>

text \<open>The three collections of a run.\<close>

record run_state =
  api_metrics_data :: "metrics_row list"
  results_data :: "result_row list"
  all_batch_results :: batch_results

definition initial_state :: run_state where
  "initial_state = \<lparr>api_metrics_data = [], results_data = [], all_batch_results = Map.empty\<rparr>"

text \<open>One turn of the loop over the batches; \<open>batch_num\<close> is \<^verbatim>\<open>i + 1\<close>. The pause between
  batches is not modelled.\<close>

definition process_batch ::
  "gateway \<Rightarrow> (string \<Rightarrow> json option) \<Rightarrow> config \<Rightarrow> thinking_models_lookup
     \<Rightarrow> thinking_values_lookup \<Rightarrow> nat \<Rightarrow> item list \<Rightarrow> run_state \<Rightarrow> payload list
     \<Rightarrow> (error + run_state) \<times> payload list" where
  "process_batch net loads cfg tm tv batch_num batch st calls =
     (case assess_question_batch net loads cfg tm tv batch calls of
        (Inl e, calls') \<Rightarrow> (Inl e, calls')
      | (Inr batch_assessment_results, calls') \<Rightarrow>
          (case batch_rows cfg batch_assessment_results batch of
             Inl e \<Rightarrow> (Inl e, calls')
           | Inr rows \<Rightarrow>
               (case batch_metrics cfg batch_num batch batch_assessment_results model_keys of
                  Inl e \<Rightarrow> (Inl e, calls')
                | Inr ms \<Rightarrow>
                    (Inr \<lparr>api_metrics_data = api_metrics_data st @ ms,
                          results_data = results_data st @ rows,
                          all_batch_results = all_batch_results st ++ batch_assessment_results\<rparr>,
                     calls'))))"

fun process_batches ::
  "gateway \<Rightarrow> (string \<Rightarrow> json option) \<Rightarrow> config \<Rightarrow> thinking_models_lookup
     \<Rightarrow> thinking_values_lookup \<Rightarrow> nat \<Rightarrow> item list list \<Rightarrow> run_state \<Rightarrow> payload list
     \<Rightarrow> (error + run_state) \<times> payload list" where
  "process_batches net loads cfg tm tv batch_num [] st calls = (Inr st, calls)"
| "process_batches net loads cfg tm tv batch_num (batch # rest) st calls =
     (case process_batch net loads cfg tm tv batch_num batch st calls of
        (Inl e, calls') \<Rightarrow> (Inl e, calls')
      | (Inr st', calls') \<Rightarrow> process_batches net loads cfg tm tv (Suc batch_num) rest st' calls')"

text \<open>
  The run, from the rows of T\_QUESTIONS to the three collections, together with the
  requests sent. \<open>Inl e\<close> is the run that ends in
  \<^verbatim>\<open>except Exception as e: print(f"FATAL ERROR in assess_questions: {e}")\<close>: nothing is
  written to the result sheets.
\<close>

definition assess_questions ::
  "gateway \<Rightarrow> (string \<Rightarrow> json option) \<Rightarrow> config \<Rightarrow> thinking_models_lookup
     \<Rightarrow> thinking_values_lookup \<Rightarrow> item list \<Rightarrow> (error + run_state) \<times> payload list" where
  "assess_questions net loads cfg tm tv df_all =
     (case batches (df_to_process cfg df_all) (batch_size cfg) of
        Inl e \<Rightarrow> (Inl e, [])
      | Inr bs \<Rightarrow> process_batches net loads cfg tm tv 1 bs initial_state [])"

subsection \<open>Metrics aggregator (\<^verbatim>\<open>build_and_write_dashboard\<close>)\<close>

text \<open>An entry of \<^verbatim>\<open>cost_lookup\<close>: the prices per million tokens of the T\_COST table;
  \<open>None\<close> is an absent column, read as zero by \<^verbatim>\<open>model_costs.get('INPUT', 0)\<close>.\<close>

record model_costs =
  INPUT :: "real option"
  OUTPUT :: "real option"

type_synonym cost_lookup = "string \<rightharpoonup> model_costs"

definition price :: "real option \<Rightarrow> real" where
  "price p = (case p of None \<Rightarrow> 0 | Some r \<Rightarrow> r)"

text \<open>\<^verbatim>\<open>cost_lookup.get(config[model_key], {'INPUT': 0, 'OUTPUT': 0})\<close>\<close>

definition costs_of :: "cost_lookup \<Rightarrow> config \<Rightarrow> model_key \<Rightarrow> model_costs" where
  "costs_of costs cfg mk =
     (case costs (config_model cfg mk) of
        None \<Rightarrow> \<lparr>INPUT = Some 0, OUTPUT = Some 0\<rparr>
      | Some c \<Rightarrow> c)"

text \<open>
  \<^verbatim>\<open>
  model_metrics = metrics_df[metrics_df['Model_Key'] == model_key]
  model_results = results_df[results_df['Model'] == display_model_name]
  \<close>
\<close>

definition model_metrics :: "metrics_row list \<Rightarrow> model_key \<Rightarrow> metrics_row list" where
  "model_metrics metrics_data mk = filter (\<lambda>m. Model_Key m = mk) metrics_data"

definition model_results :: "config \<Rightarrow> result_row list \<Rightarrow> model_key \<Rightarrow> result_row list" where
  "model_results cfg rows mk =
     filter (\<lambda>r. row_model r = Some (get_short_model_name (config_model cfg mk))) rows"

definition total_api_calls :: "metrics_row list \<Rightarrow> model_key \<Rightarrow> nat" where
  "total_api_calls metrics_data mk = length (model_metrics metrics_data mk)"

definition successful_api_calls :: "metrics_row list \<Rightarrow> model_key \<Rightarrow> nat" where
  "successful_api_calls metrics_data mk =
     length (filter (\<lambda>m. Status m = ''SUCCESS'') (model_metrics metrics_data mk))"

definition total_input_tokens :: "metrics_row list \<Rightarrow> model_key \<Rightarrow> int" where
  "total_input_tokens metrics_data mk = sum_list (map Input_Tokens (model_metrics metrics_data mk))"

definition total_output_tokens :: "metrics_row list \<Rightarrow> model_key \<Rightarrow> int" where
  "total_output_tokens metrics_data mk = sum_list (map Output_Tokens (model_metrics metrics_data mk))"

definition total_reasoning_tokens :: "metrics_row list \<Rightarrow> model_key \<Rightarrow> int" where
  "total_reasoning_tokens metrics_data mk =
     sum_list (map Reasoning_Tokens (model_metrics metrics_data mk))"

text \<open>
  \<^verbatim>\<open>
  input_cost = (total_input_tokens / 1_000_000) * float(model_costs.get('INPUT', 0))
  output_cost = (total_output_tokens / 1_000_000) * float(model_costs.get('OUTPUT', 0))
  reasoning_cost = (total_reasoning_tokens / 1_000_000) * float(model_costs.get('OUTPUT', 0))
  total_cost = input_cost + output_cost + reasoning_cost
  \<close>
\<close>

definition input_cost :: "cost_lookup \<Rightarrow> config \<Rightarrow> metrics_row list \<Rightarrow> model_key \<Rightarrow> real" where
  "input_cost costs cfg metrics_data mk =
     (real_of_int (total_input_tokens metrics_data mk) / 1000000) * price (INPUT (costs_of costs cfg mk))"

definition output_cost :: "cost_lookup \<Rightarrow> config \<Rightarrow> metrics_row list \<Rightarrow> model_key \<Rightarrow> real" where
  "output_cost costs cfg metrics_data mk =
     (real_of_int (total_output_tokens metrics_data mk) / 1000000) * price (OUTPUT (costs_of costs cfg mk))"

definition reasoning_cost :: "cost_lookup \<Rightarrow> config \<Rightarrow> metrics_row list \<Rightarrow> model_key \<Rightarrow> real" where
  "reasoning_cost costs cfg metrics_data mk =
     (real_of_int (total_reasoning_tokens metrics_data mk) / 1000000)
       * price (OUTPUT (costs_of costs cfg mk))"

definition total_cost :: "cost_lookup \<Rightarrow> config \<Rightarrow> metrics_row list \<Rightarrow> model_key \<Rightarrow> real" where
  "total_cost costs cfg metrics_data mk =
     input_cost costs cfg metrics_data mk + output_cost costs cfg metrics_data mk
       + reasoning_cost costs cfg metrics_data mk"

text \<open>
  \<^verbatim>\<open>
  successful_items = model_results['Change Required?'].notna().sum() / 3
  changes_recommended = (model_results['Change Required?'] == 1).sum() / 3
  'Total Items': len(model_results) / 3
  'Failed Items': (len(model_results) / 3) - successful_items
  'Change Rate (%)': (changes_recommended / successful_items) if successful_items > 0 else 0
  \<close>
\<close>

definition total_items :: "config \<Rightarrow> result_row list \<Rightarrow> model_key \<Rightarrow> real" where
  "total_items cfg rows mk = real (length (model_results cfg rows mk)) / 3"

definition successful_items :: "config \<Rightarrow> result_row list \<Rightarrow> model_key \<Rightarrow> real" where
  "successful_items cfg rows mk =
     real (length (filter (\<lambda>r. row_change_required r \<noteq> JNull) (model_results cfg rows mk))) / 3"

definition changes_recommended :: "config \<Rightarrow> result_row list \<Rightarrow> model_key \<Rightarrow> real" where
  "changes_recommended cfg rows mk =
     real (length (filter (\<lambda>r. py_eq_int (row_change_required r) 1) (model_results cfg rows mk))) / 3"

definition failed_items :: "config \<Rightarrow> result_row list \<Rightarrow> model_key \<Rightarrow> real" where
  "failed_items cfg rows mk = total_items cfg rows mk - successful_items cfg rows mk"

definition change_rate :: "config \<Rightarrow> result_row list \<Rightarrow> model_key \<Rightarrow> real" where
  "change_rate cfg rows mk =
     (if successful_items cfg rows mk > 0
      then changes_recommended cfg rows mk / successful_items cfg rows mk else 0)"

text \<open>
  \<^verbatim>\<open>
  total_time_seconds = model_metrics['Latency_Seconds'].sum()
  batch_size = config['batch_size']
  total_questions_processed = total_api_calls * batch_size
  time_per_question_seconds = (total_time_seconds / total_questions_processed) if total_questions_processed > 0 else 0
  time_per_api_call_seconds = (total_time_seconds / total_api_calls) if total_api_calls > 0 else 0
  cost_per_1k = (total_cost / total_questions_processed * 1_000) if total_questions_processed > 0 else 0
  cost_per_100k = (total_cost / total_questions_processed * 100_000) if total_questions_processed > 0 else 0
  \<close>
  The times are kept in seconds; their display as hours, minutes and seconds is not
  modelled.
\<close>

definition total_time_seconds :: "metrics_row list \<Rightarrow> model_key \<Rightarrow> real" where
  "total_time_seconds metrics_data mk = sum_list (map Latency_Seconds (model_metrics metrics_data mk))"

definition total_questions_processed :: "config \<Rightarrow> metrics_row list \<Rightarrow> model_key \<Rightarrow> int" where
  "total_questions_processed cfg metrics_data mk =
     int (total_api_calls metrics_data mk) * batch_size cfg"

definition time_per_question_seconds :: "config \<Rightarrow> metrics_row list \<Rightarrow> model_key \<Rightarrow> real" where
  "time_per_question_seconds cfg metrics_data mk =
     (if total_questions_processed cfg metrics_data mk > 0
      then total_time_seconds metrics_data mk / real_of_int (total_questions_processed cfg metrics_data mk)
      else 0)"

definition time_per_api_call_seconds :: "metrics_row list \<Rightarrow> model_key \<Rightarrow> real" where
  "time_per_api_call_seconds metrics_data mk =
     (if total_api_calls metrics_data mk > 0
      then total_time_seconds metrics_data mk / real (total_api_calls metrics_data mk)
      else 0)"

definition cost_per_1k :: "cost_lookup \<Rightarrow> config \<Rightarrow> metrics_row list \<Rightarrow> model_key \<Rightarrow> real" where
  "cost_per_1k costs cfg metrics_data mk =
     (if total_questions_processed cfg metrics_data mk > 0
      then total_cost costs cfg metrics_data mk
             / real_of_int (total_questions_processed cfg metrics_data mk) * 1000
      else 0)"

text \<open>The figures of one model column of the dashboard that the properties below
  are about.\<close>

record dashboard_entry =
  Model :: string
  Total_API_Calls :: nat
  Successful_API_Calls :: nat
  Total_Items :: real
  Successful_Items :: real
  Failed_Items :: real
  Changes_Recommended :: int
  Change_Rate :: real
  Total_Time :: real
  Time_per_Question :: real
  Time_per_API_Call :: real
  Total_Cost :: real

definition dashboard_entry_of ::
  "cost_lookup \<Rightarrow> config \<Rightarrow> metrics_row list \<Rightarrow> result_row list \<Rightarrow> model_key \<Rightarrow> dashboard_entry" where
  "dashboard_entry_of costs cfg metrics_data rows mk =
     \<lparr>Model = get_short_model_name (config_model cfg mk),
      Total_API_Calls = total_api_calls metrics_data mk,
      Successful_API_Calls = successful_api_calls metrics_data mk,
      Total_Items = total_items cfg rows mk,
      Successful_Items = successful_items cfg rows mk,
      Failed_Items = failed_items cfg rows mk,
      Changes_Recommended = int_of_float (changes_recommended cfg rows mk),
      Change_Rate = change_rate cfg rows mk,
      Total_Time = total_time_seconds metrics_data mk,
      Time_per_Question = time_per_question_seconds cfg metrics_data mk,
      Time_per_API_Call = time_per_api_call_seconds metrics_data mk,
      Total_Cost = total_cost costs cfg metrics_data mk\<rparr>"

text \<open>
  \<^verbatim>\<open>
  if not metrics_data: return
  ...
  active_models = metrics_df['Model_Key'].unique()
  for model_key in active_models: ...
  \<close>
  \<open>None\<close> is the run that writes no dashboard: no metrics, or a results table without
  a \<^verbatim>\<open>Model\<close> column (no row but separators), whose \<^verbatim>\<open>KeyError\<close> the function
  catches and prints. \<^verbatim>\<open>unique()\<close> keeps the first occurrence of each key.
\<close>

definition active_models :: "metrics_row list \<Rightarrow> model_key list" where
  "active_models metrics_data = rev (remdups (rev (map Model_Key metrics_data)))"

definition build_dashboard ::
  "cost_lookup \<Rightarrow> config \<Rightarrow> metrics_row list \<Rightarrow> result_row list \<Rightarrow> dashboard_entry list option" where
  "build_dashboard costs cfg metrics_data rows =
     (if metrics_data = [] then None
      else if list_all (\<lambda>r. r = Separator) rows then None
      else Some (map (dashboard_entry_of costs cfg metrics_data rows) (active_models metrics_data)))"

text \<open>\<^verbatim>\<open>batch_results.get(qid, {}).get(model_key)\<close>\<close>

definition lookup_verdict :: "batch_results \<Rightarrow> key \<Rightarrow> model_key \<Rightarrow> verdict option" where
  "lookup_verdict br qid mk = (case br qid of None \<Rightarrow> None | Some d \<Rightarrow> d mk)"

subsection \<open>Kinds of verdict\<close>

text \<open>
  The three verdicts the reconciler writes: the parsed object of the response
  (\<^verbatim>\<open>'error': None\<close>), the explicit missing-response verdict, and the error verdict
  that every question of the batch gets when the call or the parsing failed.
\<close>

definition is_parsed_verdict :: "verdict \<Rightarrow> bool" where
  "is_parsed_verdict v = (error_entry v = JNull \<and> result_for_qid v \<noteq> [])"

definition is_missing_verdict :: "verdict \<Rightarrow> bool" where
  "is_missing_verdict v = (error_entry v = JStr missing_msg \<and> result_for_qid v = [])"


subsection \<open>Example data\<close>

text \<open>A configuration with all three slots enabled, a capability table and a gateway
  that times out, for the concrete runs below.\<close>

definition example_config :: config where
  "example_config =
     \<lparr>model_1 = ''anthropic/claude-3-5-haiku-20241022'', model_2 = ''openai/gpt-5-mini'',
      model_3 = ''google/gemini-2.5-flash'',
      model_1_tag = 1, model_2_tag = 1, model_3_tag = 1,
      batch_size = 2, start_row = 2, end_row = None,
      thinking_budget_gemini = CellNone, reasoning_effort_openai = []\<rparr>"

definition example_thinking :: thinking_models_lookup where
  "example_thinking = [''openai/gpt-5-mini'' \<mapsto> 1, ''google/gemini-2.5-flash'' \<mapsto> 1,
                       ''google/gemini-2.5-pro'' \<mapsto> 1]"

definition example_values :: thinking_values_lookup where
  "example_values = [''openai/gpt-5-mini'' \<mapsto> ''minimal, low, medium, high'',
                     ''google/gemini-2.5-flash'' \<mapsto> [], ''google/gemini-2.5-pro'' \<mapsto> []]"



definition example_item :: "int \<Rightarrow> item" where
  "example_item n = \<lparr>questionid = KInt n, original_content = [''Q'', ''A'', ''B'', [], [], []]\<rparr>"


text \<open>Metrics rows of two slots and a cost table, for the concrete summaries below.\<close>

definition example_metrics :: "metrics_row list" where
  "example_metrics =
     [\<lparr>Question_ID = 1, Model_Name = ''openai/gpt-5-mini'', Model_Key = Model_2,
       Status = ''SUCCESS'', Input_Tokens = 600000, Output_Tokens = 500000,
       Reasoning_Tokens = 0, Total_Tokens = 1100000, Latency_Seconds = 2\<rparr>,
      \<lparr>Question_ID = 1, Model_Name = ''google/gemini-2.5-flash'', Model_Key = Model_3,
       Status = ''SUCCESS'', Input_Tokens = 700, Output_Tokens = 90,
       Reasoning_Tokens = 40, Total_Tokens = 830, Latency_Seconds = 1\<rparr>,
      \<lparr>Question_ID = 2, Model_Name = ''openai/gpt-5-mini'', Model_Key = Model_2,
       Status = ''ERROR'', Input_Tokens = 400000, Output_Tokens = 0,
       Reasoning_Tokens = 0, Total_Tokens = 400000, Latency_Seconds = 4\<rparr>]"

definition example_costs :: cost_lookup where
  "example_costs = [''openai/gpt-5-mini'' \<mapsto> \<lparr>INPUT = Some 2, OUTPUT = Some 8\<rparr>]"

subsection \<open>Layout of the result rows\<close>




text \<open>The example configuration with only the first slot enabled.\<close>

definition claude_only_config :: config where
  "claude_only_config = example_config\<lparr>model_2_tag := 0, model_3_tag := 0\<rparr>"

text \<open>Response texts for the concrete batches below, and what \<^verbatim>\<open>json.loads\<close> makes
  of them. \<open>quoted s\<close> is \<open>s\<close> between double quotes, so \<open>no_change_text ''2''\<close> is the
  JSON text of an object with \<^verbatim>\<open>questionid\<close> 2, \<^verbatim>\<open>change_required\<close> 0 and a feedback
  for \<^verbatim>\<open>question\<close> whose issue and rewrite are empty.\<close>

definition quoted :: "string \<Rightarrow> string" where
  "quoted s = CHR 0x22 # s @ [CHR 0x22]"

definition no_change_text :: "string \<Rightarrow> string" where
  "no_change_text qid =
     ''{'' @ quoted ''questionid'' @ '':'' @ qid @ '','' @ quoted ''change_required'' @ '':0,''
       @ quoted ''feedback'' @ '':{'' @ quoted ''question'' @ '':{'' @ quoted ''issue'' @ '':''
       @ quoted [] @ '','' @ quoted ''rewrite'' @ '':'' @ quoted [] @ ''}}}''"

definition no_change_object :: "int \<Rightarrow> (string \<times> json) list" where
  "no_change_object qid =
     [(''questionid'', JNum qid), (''change_required'', JNum 0),
      (''feedback'', JObj [(''question'', JObj [(''issue'', JStr []), (''rewrite'', JStr [])])])]"

definition two_of_three_text :: string where
  "two_of_three_text = ''['' @ no_change_text ''2'' @ '','' @ no_change_text ''3'' @ '']''"

definition one_blank_text :: string where
  "one_blank_text = ''['' @ no_change_text ''1'' @ '']''"

text \<open>An array of one object with the flag 5 and no feedback.\<close>

definition bad_flag_text :: string where
  "bad_flag_text = ''[{'' @ quoted ''questionid'' @ '':1,'' @ quoted ''change_required'' @ '':5}]''"

definition bad_flag_object :: "(string \<times> json) list" where
  "bad_flag_object = [(''questionid'', JNum 1), (''change_required'', JNum 5)]"

text \<open>\<^verbatim>\<open>json.loads\<close> on the three texts; any other text is taken as malformed.\<close>

definition example_loads :: "string \<Rightarrow> json option" where
  "example_loads s =
     (if s = two_of_three_text then Some (JArr [JObj (no_change_object 2), JObj (no_change_object 3)])
      else if s = one_blank_text then Some (JArr [JObj (no_change_object 1)])
      else if s = bad_flag_text
        then Some (JArr [JObj bad_flag_object])
      else None)"

text \<open>A gateway that answers every request with the same content.\<close>

definition reply :: "string \<Rightarrow> api_outcome" where
  "reply txt =
     ApiSuccess \<lparr>content = Text txt,
                 usage = \<lparr>prompt_tokens = Some 900, completion_tokens = Some 120,
                          total_tokens = Some 1020, reasoning_tokens_nested = None,
                          reasoning_tokens = None, thinking_tokens = None\<rparr>\<rparr> 2"

definition reply_net :: "string \<Rightarrow> gateway" where
  "reply_net txt n p = reply txt"

text \<open>Only the first slot enabled, batches of three questions.\<close>

definition single_slot_config :: config where
  "single_slot_config = claude_only_config\<lparr>batch_size := 3\<rparr>"

section \<open>Properties\<close>

subsection \<open>Batching\<close>

lemma py_slice_nonneg:
  assumes "0 \<le> a" "a \<le> b"
  shows "py_slice a b xs = take (nat (b - a)) (drop (nat a) xs)"
proof (cases "a \<le> int (length xs)")
  case True
  have "take (nat (min b (int (length xs)) - a)) (drop (nat a) xs)
        = take (nat (b - a)) (drop (nat a) xs)"
  proof (cases "b \<le> int (length xs)")
    case True
    then show ?thesis by (simp add: min_def)
  next
    case False
    with \<open>a \<le> int (length xs)\<close> assms show ?thesis by (simp add: min_def)
  qed
  with True assms show ?thesis
    by (simp add: py_slice_def slice_bound_def Let_def min_def)
next
  case False
  with assms show ?thesis
    by (simp add: py_slice_def slice_bound_def Let_def min_def)
qed

lemma batch_df_take_drop:
  assumes "0 < B"
  shows "batch_df df B (int i) = take (nat B) (drop (i * nat B) df)"
proof -
  have "nat (int i * B) = i * nat B"
    using assms by (simp add: nat_mult_distrib)
  moreover have "0 \<le> int i * B" using assms by simp
  ultimately show ?thesis
    using assms by (simp add: batch_df_def py_slice_nonneg)
qed

lemma concat_chunks:
  "concat (map (\<lambda>i. take n (drop (i * n) xs)) [0..<k]) = take (k * n) xs"
proof (induction k)
  case 0
  then show ?case by simp
next
  case (Suc k)
  have "take (k * n) xs @ take n (drop (k * n) xs) = take (k * n + n) xs"
    by (simp add: take_add)
  with Suc show ?case by (simp add: add.commute)
qed

lemma div_unique_int:
  fixes a b q r :: int
  assumes "a = q * b + r" "0 \<le> r" "r < b"
  shows "a div b = q"
proof -
  have "a div b = (r + q * b) div b" using assms by (simp add: add.commute)
  also have "\<dots> = q + r div b" using assms by simp
  also have "r div b = 0" using assms by simp
  finally show ?thesis by simp
qed

lemma ceil_div_int:
  fixes L B :: int
  assumes "0 < B"
  shows "(L + B - 1) div B = - ((- L) div B)"
proof (cases "L mod B = 0")
  case True
  define q where "q = L div B"
  have "L = L div B * B + L mod B" by simp
  then have L: "L = q * B" using True by (simp add: q_def)
  have a: "(L + B - 1) div B = q"
    by (rule div_unique_int[where r = "B - 1"]) (use assms L in auto)
  have b: "(- L) div B = - q"
    by (rule div_unique_int[where r = 0]) (use assms L in auto)
  show ?thesis using a b by simp
next
  case False
  define q where "q = L div B"
  define r where "r = L mod B"
  have L: "L = q * B + r" by (simp add: q_def r_def)
  have "0 \<le> r" "r < B" using assms by (simp_all add: r_def)
  then have r: "0 < r" "r < B" using False by (simp_all add: r_def)
  have a: "(L + B - 1) div B = q + 1"
    by (rule div_unique_int[where r = "r - 1"]) (use assms L r in \<open>auto simp: algebra_simps\<close>)
  have b: "(- L) div B = - (q + 1)"
    by (rule div_unique_int[where r = "B - r"]) (use assms L r in \<open>auto simp: algebra_simps\<close>)
  show ?thesis using a b by simp
qed

lemma total_batches_ceiling:
  assumes "0 < B"
  shows "(int L + B - 1) div B = \<lceil>real L / real_of_int B\<rceil>"
proof -
  have "\<lceil>real L / real_of_int B\<rceil> = \<lceil>real_of_int (int L) / real_of_int B\<rceil>" by simp
  also have "\<dots> = - ((- int L) div B)"
    by (simp only: ceiling_divide_eq_div)
  also have "\<dots> = (int L + B - 1) div B"
    using ceil_div_int[OF assms, of "int L"] by simp
  finally show ?thesis by simp
qed

lemma total_batches_covers:
  assumes "0 < B"
  shows "L \<le> nat ((int L + B - 1) div B) * nat B"
    and "(nat ((int L + B - 1) div B) - 1) * nat B < L \<or> L = 0"
proof -
  define t where "t = (int L + B - 1) div B"
  have m: "0 \<le> (int L + B - 1) mod B" "(int L + B - 1) mod B < B"
    using assms by simp_all
  have e: "int L + B - 1 = t * B + (int L + B - 1) mod B"
    by (simp add: t_def)
  have tnn: "0 \<le> t" using assms by (simp add: t_def pos_imp_zdiv_nonneg_iff)
  have "int L \<le> t * B" using e m by linarith
  then have "int L \<le> int (nat t * nat B)" using tnn assms by simp
  then show "L \<le> nat ((int L + B - 1) div B) * nat B"
    unfolding t_def by linarith
  show "(nat ((int L + B - 1) div B) - 1) * nat B < L \<or> L = 0"
  proof (cases "L = 0")
    case True
    then show ?thesis by simp
  next
    case False
    have "t * B \<le> int L + B - 1" using e m by linarith
    then have "(t - 1) * B < int L" by (simp add: algebra_simps)
    moreover have "1 \<le> t"
    proof -
      have "B \<le> int L + B - 1" using False by simp
      then have "B div B \<le> (int L + B - 1) div B" by (rule zdiv_mono1) (use assms in simp)
      then show ?thesis using assms by (simp add: t_def)
    qed
    ultimately have "int ((nat t - 1) * nat B) < int L"
      using assms by (simp add: nat_diff_distrib' of_nat_diff)
    then show ?thesis unfolding t_def by linarith
  qed
qed

text \<open>
  Claim C2. For a batch size \<open>B > 0\<close> the orchestrator cuts the selected rows \<open>df\<close>
  into exactly \<open>\<lceil>L / B\<rceil>\<close> batches, \<open>L\<close> the number of rows. Their sizes
  sum to \<open>L\<close>; batch \<open>i\<close> is the slice of \<open>B\<close> rows starting at row \<open>i * B\<close>, so
  the batches put end to end are \<open>df\<close> again (same order, no gap, no overlap); every
  batch but the last has exactly \<open>B\<close> rows, and no batch is empty or longer than \<open>B\<close>.
\<close>

theorem batches_partition:
  assumes "0 < B"
  shows "\<exists>bs. batches df B = Inr bs
           \<and> int (length bs) = \<lceil>real (length df) / real_of_int B\<rceil>
           \<and> sum_list (map length bs) = length df
           \<and> concat bs = df
           \<and> (\<forall>i < length bs. bs ! i = take (nat B) (drop (i * nat B) df))
           \<and> (\<forall>i. Suc i < length bs \<longrightarrow> length (bs ! i) = nat B)
           \<and> (\<forall>i < length bs. bs ! i \<noteq> [] \<and> length (bs ! i) \<le> nat B)"
proof -
  define t where "t = nat ((int (length df) + B - 1) div B)"
  define bs where "bs = map (\<lambda>i. take (nat B) (drop (i * nat B) df)) [0..<t]"
  have tnn: "0 \<le> (int (length df) + B - 1) div B"
    using assms by (simp add: pos_imp_zdiv_nonneg_iff)
  have run: "batches df B = Inr bs"
    using assms by (simp add: batches_def total_batches_def bs_def t_def batch_df_take_drop)
  have len: "length bs = t" by (simp add: bs_def)
  have cover: "length df \<le> t * nat B"
    unfolding t_def by (rule total_batches_covers(1)[OF assms])
  have tight: "(t - 1) * nat B < length df \<or> length df = 0"
    unfolding t_def by (rule total_batches_covers(2)[OF assms])
  have t0: "length df = 0 \<Longrightarrow> t = 0"
    using assms by (simp add: t_def)
  have cnt: "int (length bs) = \<lceil>real (length df) / real_of_int B\<rceil>"
    using tnn by (simp add: len t_def total_batches_ceiling[OF assms])
  have cat: "concat bs = df"
    using cover by (simp add: bs_def concat_chunks)
  have sum: "sum_list (map length bs) = length df"
  proof -
    have "sum_list (map length bs) = length (concat bs)" by (simp add: length_concat)
    then show ?thesis by (simp add: cat)
  qed
  have nth: "\<forall>i < length bs. bs ! i = take (nat B) (drop (i * nat B) df)"
    by (simp add: bs_def)
  have full: "\<forall>i. Suc i < length bs \<longrightarrow> length (bs ! i) = nat B"
  proof (intro allI impI)
    fix i assume i: "Suc i < length bs"
    then have "Suc i \<le> t - 1" by (simp add: len)
    then have "Suc i * nat B \<le> (t - 1) * nat B" by (rule mult_le_mono1)
    moreover have "length df \<noteq> 0" using i t0 len by auto
    ultimately have "Suc i * nat B < length df" using tight by linarith
    then have "nat B \<le> length df - i * nat B" by simp
    then show "length (bs ! i) = nat B" using i by (simp add: bs_def)
  qed
  have nonempty: "\<forall>i < length bs. bs ! i \<noteq> [] \<and> length (bs ! i) \<le> nat B"
  proof (intro allI impI)
    fix i assume i: "i < length bs"
    then have "i \<le> t - 1" by (simp add: len)
    then have "i * nat B \<le> (t - 1) * nat B" by (rule mult_le_mono1)
    moreover have "length df \<noteq> 0" using i t0 len by auto
    ultimately have "i * nat B < length df" using tight by linarith
    then show "bs ! i \<noteq> [] \<and> length (bs ! i) \<le> nat B"
      using i assms by (simp add: bs_def)
  qed
  show ?thesis
    using run cnt sum cat nth full nonempty by blast
qed

theorem batches_partition_witness:
  "(0::int) < 2 \<and> batches ''abcde'' 2 = Inr [''ab'', ''cd'', ''e'']
     \<and> \<lceil>real (length ''abcde'') / real_of_int 2\<rceil> = 3"
proof -
  have h: "(0::int) < 2" by simp
  obtain bs where bs: "batches ''abcde'' 2 = Inr bs"
      "int (length bs) = \<lceil>real (length ''abcde'') / real_of_int 2\<rceil>"
      "\<forall>i < length bs. bs ! i = take (nat 2) (drop (i * nat 2) ''abcde'')"
    using batches_partition[OF h, of "''abcde''"] by blast
  have l: "length bs = 3" using bs(2) by simp
  have "bs = map ((!) bs) [0..<length bs]" by (simp add: map_nth)
  also have "\<dots> = [bs ! 0, bs ! 1, bs ! 2]"
    by (simp add: l upt_rec numeral_2_eq_2)
  also have "\<dots> = [''ab'', ''cd'', ''e'']"
    using bs(3) l by simp
  finally show ?thesis using bs(1) by simp
qed

subsection \<open>Request builder\<close>

lemma clamp_budget_cases:
  "clamp_budget name b =
     (if b \<le> 0 then b else if b < min_val name then min_val name
      else if max_val name < b then max_val name else b)"
  by (simp add: clamp_budget_def)

lemma min_le_max: "min_val name \<le> max_val name" "0 < min_val name"
  by (simp_all add: min_val_def max_val_def)

text \<open>
  Claim C4 (as amended). For a model of the budget family that the capability table
  marks as reasoning capable (its name starts with \<open>google/\<close>): a blank budget cell
  (empty, or a text of white space only) leaves \<^verbatim>\<open>thinking_budget\<close> out of the
  request; a budget of zero leaves it out too; a positive budget below the model's
  minimum is raised to the minimum, one above the maximum is cut to the maximum, one in
  between is sent as it is; a negative budget is sent unchanged. The minimum and maximum
  are 128 and 32768 when the lower-cased model name contains \<open>pro\<close>, 512 and 24576
  otherwise.
\<close>

theorem gemini_thinking_budget:
  assumes "tm name = Some 1" and "startswith name ''google/''"
  shows "(thinking_budget_gemini cfg = CellNone \<or>
            (\<exists>s. thinking_budget_gemini cfg = CellStr s \<and> strip s = [])
          \<longrightarrow> build_payload cfg tm tv name msgs
                = Inr \<lparr>model = name, messages = msgs, thinking_budget = None, reasoning_effort = None\<rparr>)
       \<and> (\<forall>b. gemini_budget (thinking_budget_gemini cfg) = Inr b \<longrightarrow>
             build_payload cfg tm tv name msgs
               = Inr \<lparr>model = name, messages = msgs,
                      thinking_budget =
                        (if b = 0 then None
                         else if b < 0 then Some b
                         else if b < min_val name then Some (min_val name)
                         else if max_val name < b then Some (max_val name)
                         else Some b),
                      reasoning_effort = None\<rparr>)
       \<and> (\<forall>x. gemini_budget (CellNum x) = Inr (int_of_float x))
       \<and> min_val name = (if contains (lower name) ''pro'' then 128 else 512)
       \<and> max_val name = (if contains (lower name) ''pro'' then 32768 else 24576)"
proof -
  have blank: "build_payload cfg tm tv name msgs
        = Inr \<lparr>model = name, messages = msgs, thinking_budget = None, reasoning_effort = None\<rparr>"
    if "thinking_budget_gemini cfg = CellNone \<or>
        (\<exists>s. thinking_budget_gemini cfg = CellStr s \<and> strip s = [])"
  proof -
    have "gemini_budget (thinking_budget_gemini cfg) = Inr 0"
      using that by (auto simp: gemini_budget_def)
    then show ?thesis
      using assms by (simp add: build_payload_def clamp_budget_def)
  qed
  have num: "build_payload cfg tm tv name msgs
               = Inr \<lparr>model = name, messages = msgs,
                      thinking_budget =
                        (if b = 0 then None
                         else if b < 0 then Some b
                         else if b < min_val name then Some (min_val name)
                         else if max_val name < b then Some (max_val name)
                         else Some b),
                      reasoning_effort = None\<rparr>"
    if "gemini_budget (thinking_budget_gemini cfg) = Inr b" for b
    using that assms min_le_max[of name]
    by (simp add: build_payload_def clamp_budget_cases Let_def)
  have cellnum: "\<forall>x. gemini_budget (CellNum x) = Inr (int_of_float x)"
    by (simp add: gemini_budget_def)
  show ?thesis
    using blank num cellnum by (simp add: min_val_def max_val_def)
qed

lemma ex_pro: "contains (lower ''google/gemini-2.5-pro'') ''pro''" by code_simp
lemma ex_flash: "\<not> contains (lower ''google/gemini-2.5-flash'') ''pro''" by code_simp

theorem gemini_thinking_budget_witness:
  "build_payload (example_config\<lparr>thinking_budget_gemini := CellNum 50\<rparr>) example_thinking example_values
      ''google/gemini-2.5-pro'' []
     = Inr \<lparr>model = ''google/gemini-2.5-pro'', messages = [], thinking_budget = Some 128,
            reasoning_effort = None\<rparr>
   \<and> build_payload (example_config\<lparr>thinking_budget_gemini := CellStr '' ''\<rparr>) example_thinking example_values
      ''google/gemini-2.5-pro'' []
     = Inr \<lparr>model = ''google/gemini-2.5-pro'', messages = [], thinking_budget = None,
            reasoning_effort = None\<rparr>"
proof -
  have t: "example_thinking ''google/gemini-2.5-pro'' = Some 1"
    by (simp add: example_thinking_def)
  have g: "startswith ''google/gemini-2.5-pro'' ''google/''"
    by (simp add: startswith_def)
  have b: "gemini_budget (thinking_budget_gemini (example_config\<lparr>thinking_budget_gemini := CellNum 50\<rparr>)) = Inr 50"
    by (simp add: gemini_budget_def int_of_float_def)
  have s: "strip '' '' = []" by code_simp
  have m: "min_val ''google/gemini-2.5-pro'' = 128"
    using ex_pro by (simp add: min_val_def)
  from gemini_thinking_budget[where tm = example_thinking and name = "''google/gemini-2.5-pro''"
         and cfg = "example_config\<lparr>thinking_budget_gemini := CellNum 50\<rparr>"
         and tv = example_values and msgs = "[]", OF t g]
       b m
  have one: "build_payload (example_config\<lparr>thinking_budget_gemini := CellNum 50\<rparr>) example_thinking example_values
      ''google/gemini-2.5-pro'' []
     = Inr \<lparr>model = ''google/gemini-2.5-pro'', messages = [], thinking_budget = Some 128,
            reasoning_effort = None\<rparr>"
    by simp
  from gemini_thinking_budget[where tm = example_thinking and name = "''google/gemini-2.5-pro''"
         and cfg = "example_config\<lparr>thinking_budget_gemini := CellStr '' ''\<rparr>"
         and tv = example_values and msgs = "[]", OF t g]
       s
  have two: "build_payload (example_config\<lparr>thinking_budget_gemini := CellStr '' ''\<rparr>) example_thinking example_values
      ''google/gemini-2.5-pro'' []
     = Inr \<lparr>model = ''google/gemini-2.5-pro'', messages = [], thinking_budget = None,
            reasoning_effort = None\<rparr>"
    by simp
  show ?thesis using one two by simp
qed

text \<open>
  Claim C4 as stated fails: the budget \<open>-1\<close> is below the minimum 512 of
  \<open>google/gemini-2.5-flash\<close> and is sent as \<open>-1\<close>, not raised to 512.
\<close>

theorem gemini_negative_budget_counterexample:
  "build_payload (example_config\<lparr>thinking_budget_gemini := CellNum (- 1)\<rparr>) example_thinking example_values
      ''google/gemini-2.5-flash'' []
     = Inr \<lparr>model = ''google/gemini-2.5-flash'', messages = [], thinking_budget = Some (- 1),
            reasoning_effort = None\<rparr>
   \<and> min_val ''google/gemini-2.5-flash'' = 512
   \<and> thinking_budget_gemini (example_config\<lparr>thinking_budget_gemini := CellNum (- 1)\<rparr>) = CellNum (- 1)
   \<and> example_thinking ''google/gemini-2.5-flash'' = Some 1"
proof -
  have g: "startswith ''google/gemini-2.5-flash'' ''google/''"
    by (simp add: startswith_def)
  have m: "min_val ''google/gemini-2.5-flash'' = 512"
    using ex_flash by (simp add: min_val_def)
  have "int_of_float (- 1) = - 1" by (simp add: int_of_float_def ceiling_def)
  then show ?thesis
    using g m
    by (simp add: build_payload_def gemini_budget_def clamp_budget_def example_thinking_def)
qed

subsection \<open>Reconciler\<close>

















subsection \<open>Configuration errors\<close>
















subsection \<open>Metrics aggregator\<close>

text \<open>
  Claim C8. For a model slot whose prices per million tokens are in the cost table, the
  total cost is the summed input tokens of its metrics rows divided by 1,000,000 times
  the input price, plus the summed output tokens divided by 1,000,000 times the output
  price, plus the summed reasoning tokens divided by 1,000,000 times the output price
  again. With 1,000,000 input tokens, 500,000 output tokens, no reasoning tokens and the
  prices 2 and 8 the total cost is 6. (Prices and costs are reals here.)
\<close>

theorem total_cost_formula:
  "(costs (config_model cfg mk) = Some \<lparr>INPUT = Some input_rate, OUTPUT = Some output_rate\<rparr> \<longrightarrow>
      total_cost costs cfg metrics_data mk
        = real_of_int (sum_list (map Input_Tokens (filter (\<lambda>m. Model_Key m = mk) metrics_data)))
            / 1000000 * input_rate
        + real_of_int (sum_list (map Output_Tokens (filter (\<lambda>m. Model_Key m = mk) metrics_data)))
            / 1000000 * output_rate
        + real_of_int (sum_list (map Reasoning_Tokens (filter (\<lambda>m. Model_Key m = mk) metrics_data)))
            / 1000000 * output_rate)
   \<and> (costs (config_model cfg mk) = Some \<lparr>INPUT = Some 2, OUTPUT = Some 8\<rparr>
        \<and> total_input_tokens metrics_data mk = 1000000
        \<and> total_output_tokens metrics_data mk = 500000
        \<and> total_reasoning_tokens metrics_data mk = 0
      \<longrightarrow> total_cost costs cfg metrics_data mk = 6)"
  by (simp add: total_cost_def input_cost_def output_cost_def reasoning_cost_def costs_of_def
      price_def total_input_tokens_def total_output_tokens_def total_reasoning_tokens_def
      model_metrics_def)

theorem total_cost_formula_witness:
  "total_cost example_costs example_config example_metrics Model_2 = 6
   \<and> total_input_tokens example_metrics Model_2 = 1000000
   \<and> total_output_tokens example_metrics Model_2 = 500000
   \<and> total_reasoning_tokens example_metrics Model_2 = 0"
proof -
  have c: "example_costs (config_model example_config Model_2) = Some \<lparr>INPUT = Some 2, OUTPUT = Some 8\<rparr>"
    by (simp add: example_costs_def example_config_def)
  have t: "total_input_tokens example_metrics Model_2 = 1000000"
      "total_output_tokens example_metrics Model_2 = 500000"
      "total_reasoning_tokens example_metrics Model_2 = 0"
    by (simp_all add: total_input_tokens_def total_output_tokens_def total_reasoning_tokens_def
        model_metrics_def example_metrics_def)
  from total_cost_formula[of example_costs example_config Model_2 2 8 example_metrics] c t
  show ?thesis by simp
qed

text \<open>
  Claim C9 (as amended). The average time per API call of a slot is the summed latency
  of its metrics rows divided by the number of all its metrics rows, successful or not,
  and zero when it has none; the average time per question is zero as well when the
  slot made no call. The change rate is the changes recommended divided by the
  successful items, and zero when there are no successful items; the division by
  three of both counts cancels.
\<close>

theorem run_summary_averages:
  "time_per_api_call_seconds metrics_data mk
     = (if filter (\<lambda>m. Model_Key m = mk) metrics_data = [] then 0
        else sum_list (map Latency_Seconds (filter (\<lambda>m. Model_Key m = mk) metrics_data))
               / real (length (filter (\<lambda>m. Model_Key m = mk) metrics_data)))
   \<and> (filter (\<lambda>m. Model_Key m = mk) metrics_data = [] \<longrightarrow>
         time_per_question_seconds cfg metrics_data mk = 0)
   \<and> change_rate cfg rows mk
     = (if successful_items cfg rows mk = 0 then 0
        else changes_recommended cfg rows mk / successful_items cfg rows mk)
   \<and> change_rate cfg rows mk
     = (if filter (\<lambda>r. row_change_required r \<noteq> JNull) (model_results cfg rows mk) = [] then 0
        else real (length (filter (\<lambda>r. py_eq_int (row_change_required r) 1) (model_results cfg rows mk)))
               / real (length (filter (\<lambda>r. row_change_required r \<noteq> JNull) (model_results cfg rows mk))))"
proof -
  have nn: "0 \<le> successful_items cfg rows mk" by (simp add: successful_items_def)
  have a: "time_per_api_call_seconds metrics_data mk
     = (if filter (\<lambda>m. Model_Key m = mk) metrics_data = [] then 0
        else sum_list (map Latency_Seconds (filter (\<lambda>m. Model_Key m = mk) metrics_data))
               / real (length (filter (\<lambda>m. Model_Key m = mk) metrics_data)))"
    by (simp add: time_per_api_call_seconds_def total_api_calls_def total_time_seconds_def
        model_metrics_def)
  have b: "filter (\<lambda>m. Model_Key m = mk) metrics_data = [] \<longrightarrow>
         time_per_question_seconds cfg metrics_data mk = 0"
    by (simp add: time_per_question_seconds_def total_questions_processed_def total_api_calls_def
        model_metrics_def)
  have c: "change_rate cfg rows mk
     = (if successful_items cfg rows mk = 0 then 0
        else changes_recommended cfg rows mk / successful_items cfg rows mk)"
    using nn by (simp add: change_rate_def)
  have d: "change_rate cfg rows mk
     = (if filter (\<lambda>r. row_change_required r \<noteq> JNull) (model_results cfg rows mk) = [] then 0
        else real (length (filter (\<lambda>r. py_eq_int (row_change_required r) 1) (model_results cfg rows mk)))
               / real (length (filter (\<lambda>r. row_change_required r \<noteq> JNull) (model_results cfg rows mk))))"
    by (simp add: change_rate_def successful_items_def changes_recommended_def)
  show ?thesis using a b c d by simp
qed

theorem run_summary_averages_witness:
  "time_per_question_seconds example_config example_metrics Model_1 = 0
   \<and> filter (\<lambda>m. Model_Key m = Model_1) example_metrics = []"
proof -
  have e: "filter (\<lambda>m. Model_Key m = Model_1) example_metrics = []"
    by (simp add: example_metrics_def)
  from run_summary_averages[of example_metrics Model_1 example_config "[]"] e
  show ?thesis by simp
qed

text \<open>
  Claim C9 as stated fails: with two calls of slot 2, one successful and one failed,
  of 2 and 4 seconds, the average per call is 6 / 2 = 3, not 6 divided by the one
  successful call.
\<close>

theorem time_per_call_counterexample:
  "time_per_api_call_seconds example_metrics Model_2 = 3
   \<and> time_per_api_call_seconds example_metrics Model_2
       \<noteq> total_time_seconds example_metrics Model_2
           / real (successful_api_calls example_metrics Model_2)
   \<and> total_time_seconds example_metrics Model_2 = 6
   \<and> total_api_calls example_metrics Model_2 = 2
   \<and> successful_api_calls example_metrics Model_2 = 1"
  by (simp add: time_per_api_call_seconds_def total_time_seconds_def total_api_calls_def
      successful_api_calls_def model_metrics_def example_metrics_def)

subsection \<open>Result rows and item counts\<close>




















subsection \<open>Batch parser and reconciler on concrete responses\<close>

lemma clean_two: "clean_content two_of_three_text = two_of_three_text" by code_simp
lemma clean_one: "clean_content one_blank_text = one_blank_text" by code_simp
lemma clean_bad: "clean_content bad_flag_text = bad_flag_text" by code_simp
lemma texts_differ: "one_blank_text \<noteq> two_of_three_text" "bad_flag_text \<noteq> two_of_three_text"
    "bad_flag_text \<noteq> one_blank_text"
  by code_simp+

lemma single_slot_tags:
  "config_tag single_slot_config Model_1 = 1" "config_tag single_slot_config Model_2 \<noteq> 1"
  "config_tag single_slot_config Model_3 \<noteq> 1"
  by (simp_all add: single_slot_config_def claude_only_config_def example_config_def)

lemma single_slot_name:
  "get_short_model_name (config_model single_slot_config Model_1) = ''claude-3-5-haiku-20241022''"
  "get_short_model_name (model_1 single_slot_config) = ''claude-3-5-haiku-20241022''"
  by (simp_all add: single_slot_config_def claude_only_config_def example_config_def
      get_short_model_name_def)

lemma reply_batch:
  assumes "example_loads (clean_content txt) = Some (JArr arr)"
    and "map_results arr Map.empty = Some m"
  shows "assess_question_batch (reply_net txt) example_loads single_slot_config example_thinking
           example_values batch calls
         = (Inr (store_verdicts batch Model_1
                   (reconcile m (batch_info single_slot_config Model_1 (reply txt)))
                   Map.empty),
            calls @ [\<lparr>model = ''anthropic/claude-3-5-haiku-20241022'', messages = batch,
                       thinking_budget = None, reasoning_effort = None\<rparr>])"
  using assms
  by (simp add: assess_question_batch_def model_keys_def assess_model_def call_openrouter_api_def
      build_payload_def single_slot_config_def claude_only_config_def example_config_def
      example_thinking_def reply_net_def reply_def model_verdicts_def
      parse_llm_batch_response_def batch_info_def)

lemma single_batch:
  assumes "batch \<noteq> []" and "length batch \<le> 3"
  shows "batches (df_to_process single_slot_config batch) (batch_size single_slot_config)
           = Inr [batch]"
proof -
  have r: "df_to_process single_slot_config batch = batch"
    by (simp add: df_to_process_def single_slot_config_def claude_only_config_def
        example_config_def py_slice_def slice_bound_def)
  have b: "batch_size single_slot_config = 3"
    by (simp add: single_slot_config_def)
  have "0 < length batch" using assms by simp
  then have "(int (length batch) + 3 - 1) div 3 = 1" using assms(2) by presburger
  moreover have "batch_df batch 3 0 = batch"
    using assms(2) by (simp add: batch_df_def py_slice_def slice_bound_def)
  ultimately show ?thesis
    by (simp add: r b batches_def total_batches_def)
qed

lemma single_batch_run:
  assumes l: "example_loads (clean_content txt) = Some (JArr arr)"
    and mr: "map_results arr Map.empty = Some m"
    and sz: "batch \<noteq> []" "length batch \<le> 3"
    and br: "br = store_verdicts batch Model_1
                    (reconcile m (batch_info single_slot_config Model_1 (reply txt))) Map.empty"
    and rows: "batch_rows single_slot_config br batch = Inr rws"
    and ms: "batch_metrics single_slot_config 1 batch br model_keys = Inr mtr"
  shows "assess_questions (reply_net txt) example_loads single_slot_config example_thinking
           example_values batch
         = (Inr \<lparr>api_metrics_data = mtr, results_data = rws, all_batch_results = br\<rparr>,
            [\<lparr>model = ''anthropic/claude-3-5-haiku-20241022'', messages = batch,
              thinking_budget = None, reasoning_effort = None\<rparr>])"
proof -
  have ab: "assess_question_batch (reply_net txt) example_loads single_slot_config example_thinking
              example_values batch []
            = (Inr br, [\<lparr>model = ''anthropic/claude-3-5-haiku-20241022'', messages = batch,
                          thinking_budget = None, reasoning_effort = None\<rparr>])"
    using reply_batch[OF l mr, of batch "[]"] by (simp add: br)
  have "process_batch (reply_net txt) example_loads single_slot_config example_thinking
          example_values 1 batch initial_state []
        = (Inr \<lparr>api_metrics_data = mtr, results_data = rws, all_batch_results = br\<rparr>,
            [\<lparr>model = ''anthropic/claude-3-5-haiku-20241022'', messages = batch,
              thinking_budget = None, reasoning_effort = None\<rparr>])"
    using ab rows ms by (simp add: process_batch_def initial_state_def)
  then show ?thesis
    using single_batch[OF sz] by (simp add: assess_questions_def)
qed

lemma no_feedback_rows:
  "item_rows cfg k q (Some (error_verdict msg i))
     = Inr [ResultRow (get_short_model_name (config_model cfg k)) (questionid q) ''Original'' JNull
              (map JStr (original_content q)),
            ResultRow (get_short_model_name (config_model cfg k)) (questionid q) ''Rewrite'' JNull
              [JStr [], JStr [], JStr [], JStr [], JStr [], JStr []],
            ResultRow (get_short_model_name (config_model cfg k)) (questionid q) ''Issues'' JNull
              [JStr msg, JStr [], JStr [], JStr [], JStr [], JStr []],
            Separator]"
  by (simp add: item_rows_def Let_def verdict_feedback_def verdict_change_required_def
      verdict_error_def error_verdict_def feedback_part_def dict_get_def answer_fields_def)

lemma no_change_rows:
  "item_rows cfg k q (Some (parsed_verdict (no_change_object n) i))
     = Inr [ResultRow (get_short_model_name (config_model cfg k)) (questionid q) ''Original'' (JNum 0)
              (map JStr (original_content q)),
            ResultRow (get_short_model_name (config_model cfg k)) (questionid q) ''Rewrite'' (JNum 0)
              [JStr [], JStr [], JStr [], JStr [], JStr [], JStr []],
            ResultRow (get_short_model_name (config_model cfg k)) (questionid q) ''Issues'' (JNum 0)
              [JStr [], JStr [], JStr [], JStr [], JStr [], JStr []],
            Separator]"
  by (simp add: item_rows_def Let_def verdict_feedback_def verdict_change_required_def
      verdict_error_def parsed_verdict_def feedback_part_def dict_get_def answer_fields_def
      no_change_object_def)

lemma bad_flag_rows:
  "item_rows cfg k q (Some (parsed_verdict bad_flag_object i))
     = Inr [ResultRow (get_short_model_name (config_model cfg k)) (questionid q) ''Original'' (JNum 5)
              (map JStr (original_content q)),
            ResultRow (get_short_model_name (config_model cfg k)) (questionid q) ''Rewrite'' (JNum 5)
              [JStr [], JStr [], JStr [], JStr [], JStr [], JStr []],
            ResultRow (get_short_model_name (config_model cfg k)) (questionid q) ''Issues'' (JNum 5)
              [JNull, JStr [], JStr [], JStr [], JStr [], JStr []],
            Separator]"
  by (simp add: item_rows_def Let_def verdict_feedback_def verdict_change_required_def
      verdict_error_def parsed_verdict_def feedback_part_def dict_get_def answer_fields_def
      bad_flag_object_def)

text \<open>
  Claim C7, on the code: a run over the questions 1, 2, 3 in one batch, and a response
  with objects for 2 and 3 only. The reconciler writes two parsed verdicts and one
  missing-response verdict, as the claim says; but the missing question is the first
  of the batch, the metrics row takes its status from the verdict of the first
  question, and the call is recorded as \<open>ERROR\<close>, not \<open>SUCCESS\<close>.
\<close>

theorem missing_first_item_marks_error:
  "(case assess_questions (reply_net two_of_three_text) example_loads single_slot_config
           example_thinking example_values [example_item 1, example_item 2, example_item 3] of
      (Inl e, calls) \<Rightarrow> False
    | (Inr st, calls) \<Rightarrow>
        map Status (api_metrics_data st) = [''ERROR'']
        \<and> map (\<lambda>n. map_option is_missing_verdict
                      (lookup_verdict (all_batch_results st) (KInt n) Model_1)) [1, 2, 3]
            = [Some True, Some False, Some False]
        \<and> map (\<lambda>n. map_option is_parsed_verdict
                      (lookup_verdict (all_batch_results st) (KInt n) Model_1)) [1, 2, 3]
            = [Some False, Some True, Some True]
        \<and> length calls = 1)"
proof -
  define i where "i = batch_info single_slot_config Model_1 (reply two_of_three_text)"
  define m where "m = [KInt 2 \<mapsto> no_change_object 2, KInt 3 \<mapsto> no_change_object 3]"
  define br where "br = store_verdicts [example_item 1, example_item 2, example_item 3] Model_1
                          (reconcile m i) Map.empty"
  have l: "example_loads (clean_content two_of_three_text)
             = Some (JArr [JObj (no_change_object 2), JObj (no_change_object 3)])"
    by (simp add: clean_two example_loads_def)
  have mr: "map_results [JObj (no_change_object 2), JObj (no_change_object 3)] Map.empty = Some m"
    by (simp add: no_change_object_def dict_get_def m_def)
  have nc: "no_change_object n \<noteq> []" for n by (simp add: no_change_object_def)
  have b: "br (KInt 1) = Some [Model_1 \<mapsto> error_verdict missing_msg i]"
      "br (KInt 2) = Some [Model_1 \<mapsto> parsed_verdict (no_change_object 2) i]"
      "br (KInt 3) = Some [Model_1 \<mapsto> parsed_verdict (no_change_object 3) i]"
    by (simp_all add: br_def example_item_def reconcile_def m_def nc Let_def)
  have "\<exists>rows. batch_rows single_slot_config br
                  [example_item 1, example_item 2, example_item 3] = Inr rows"
    using single_slot_tags b
    by (simp add: model_keys_def no_feedback_rows no_change_rows example_item_def)
  then obtain rws where rws: "batch_rows single_slot_config br
                  [example_item 1, example_item 2, example_item 3] = Inr rws" by blast
  have ms: "batch_metrics single_slot_config 1 [example_item 1, example_item 2, example_item 3]
              br model_keys = Inr [metrics_of 1 Model_1 (error_verdict missing_msg i)]"
    using single_slot_tags b by (simp add: model_keys_def example_item_def)
  have st: "Status (metrics_of 1 Model_1 (error_verdict missing_msg i)) = ''ERROR''"
    by (simp add: metrics_of_def verdict_error_def error_verdict_def dict_get_def)
  have k: "is_missing_verdict (error_verdict missing_msg i)"
      "\<not> is_parsed_verdict (error_verdict missing_msg i)"
      "\<not> is_missing_verdict (parsed_verdict (no_change_object n) i)"
      "is_parsed_verdict (parsed_verdict (no_change_object n) i)" for n
    by (simp_all add: is_missing_verdict_def is_parsed_verdict_def error_verdict_def
        parsed_verdict_def nc)
  have run: "assess_questions (reply_net two_of_three_text) example_loads single_slot_config
           example_thinking example_values [example_item 1, example_item 2, example_item 3]
         = (Inr \<lparr>api_metrics_data = [metrics_of 1 Model_1 (error_verdict missing_msg i)],
                  results_data = rws, all_batch_results = br\<rparr>,
            [\<lparr>model = ''anthropic/claude-3-5-haiku-20241022'',
              messages = [example_item 1, example_item 2, example_item 3],
              thinking_budget = None, reasoning_effort = None\<rparr>])"
    by (rule single_batch_run[OF l mr _ _ _ rws ms]) (simp_all add: br_def i_def)
  show ?thesis
    using st k by (simp add: run lookup_verdict_def b)
qed

text \<open>
  Claim C5, on the code: a run over one question and a response whose one object has
  the flag 5 and no feedback map. The batch parser checks no shape: it returns the
  object with no parse error, the question gets a parsed verdict with the flag 5,
  the three result rows carry 5, and the call is recorded as \<open>SUCCESS\<close>.
\<close>

theorem invalid_flag_accepted:
  "(case parse_llm_batch_response example_loads (outcome_response (reply bad_flag_text)) of
      Inl e \<Rightarrow> False
    | Inr (results_map, parse_error) \<Rightarrow>
        parse_error = None \<and> results_map (KInt 1) = Some bad_flag_object)
   \<and> (case assess_questions (reply_net bad_flag_text) example_loads single_slot_config
           example_thinking example_values [example_item 1] of
      (Inl e, calls) \<Rightarrow> False
    | (Inr st, calls) \<Rightarrow>
        map Status (api_metrics_data st) = [''SUCCESS'']
        \<and> map_option is_parsed_verdict (lookup_verdict (all_batch_results st) (KInt 1) Model_1)
            = Some True
        \<and> map_option verdict_change_required
              (lookup_verdict (all_batch_results st) (KInt 1) Model_1) = Some (JNum 5)
        \<and> map row_change_required (results_data st) = [JNum 5, JNum 5, JNum 5, JNull])"
proof -
  define i where "i = batch_info single_slot_config Model_1 (reply bad_flag_text)"
  define m where "m = [KInt 1 \<mapsto> bad_flag_object]"
  define br where "br = store_verdicts [example_item 1] Model_1 (reconcile m i) Map.empty"
  define rws where "rws =
     [ResultRow ''claude-3-5-haiku-20241022'' (KInt 1) ''Original'' (JNum 5)
        (map JStr (original_content (example_item 1))),
      ResultRow ''claude-3-5-haiku-20241022'' (KInt 1) ''Rewrite'' (JNum 5)
        [JStr [], JStr [], JStr [], JStr [], JStr [], JStr []],
      ResultRow ''claude-3-5-haiku-20241022'' (KInt 1) ''Issues'' (JNum 5)
        [JNull, JStr [], JStr [], JStr [], JStr [], JStr []],
      Separator]"
  have l: "example_loads (clean_content bad_flag_text) = Some (JArr [JObj bad_flag_object])"
    using texts_differ by (simp add: clean_bad example_loads_def)
  have mr: "map_results [JObj bad_flag_object] Map.empty = Some m"
    by (simp add: bad_flag_object_def dict_get_def m_def)
  have p: "parse_llm_batch_response example_loads (outcome_response (reply bad_flag_text))
             = Inr (m, None)"
    using l mr by (simp add: parse_llm_batch_response_def reply_def)
  have b: "br (KInt 1) = Some [Model_1 \<mapsto> parsed_verdict bad_flag_object i]"
    by (simp add: br_def example_item_def reconcile_def m_def bad_flag_object_def Let_def)
  have rows: "batch_rows single_slot_config br [example_item 1] = Inr rws"
    using single_slot_tags b
    by (simp add: model_keys_def bad_flag_rows single_slot_name example_item_def rws_def)
  have ms: "batch_metrics single_slot_config 1 [example_item 1] br model_keys
              = Inr [metrics_of 1 Model_1 (parsed_verdict bad_flag_object i)]"
    using single_slot_tags b by (simp add: model_keys_def example_item_def)
  have st: "Status (metrics_of 1 Model_1 (parsed_verdict bad_flag_object i)) = ''SUCCESS''"
    by (simp add: metrics_of_def verdict_error_def parsed_verdict_def dict_get_def
        bad_flag_object_def)
  have k: "is_parsed_verdict (parsed_verdict bad_flag_object i)"
      "verdict_change_required (parsed_verdict bad_flag_object i) = JNum 5"
    by (simp_all add: is_parsed_verdict_def parsed_verdict_def bad_flag_object_def
        verdict_change_required_def dict_get_def)
  have run: "assess_questions (reply_net bad_flag_text) example_loads single_slot_config
           example_thinking example_values [example_item 1]
         = (Inr \<lparr>api_metrics_data = [metrics_of 1 Model_1 (parsed_verdict bad_flag_object i)],
                  results_data = rws, all_batch_results = br\<rparr>,
            [\<lparr>model = ''anthropic/claude-3-5-haiku-20241022'', messages = [example_item 1],
              thinking_budget = None, reasoning_effort = None\<rparr>])"
    by (rule single_batch_run[OF l mr _ _ _ rows ms]) (simp_all add: br_def i_def)
  have one: "(case parse_llm_batch_response example_loads (outcome_response (reply bad_flag_text)) of
      Inl e \<Rightarrow> False
    | Inr (results_map, parse_error) \<Rightarrow>
        parse_error = None \<and> results_map (KInt 1) = Some bad_flag_object)"
    by (simp add: p m_def)
  have two: "(case assess_questions (reply_net bad_flag_text) example_loads single_slot_config
           example_thinking example_values [example_item 1] of
      (Inl e, calls) \<Rightarrow> False
    | (Inr st, calls) \<Rightarrow>
        map Status (api_metrics_data st) = [''SUCCESS'']
        \<and> map_option is_parsed_verdict (lookup_verdict (all_batch_results st) (KInt 1) Model_1)
            = Some True
        \<and> map_option verdict_change_required
              (lookup_verdict (all_batch_results st) (KInt 1) Model_1) = Some (JNum 5)
        \<and> map row_change_required (results_data st) = [JNum 5, JNum 5, JNum 5, JNull])"
    using st k by (simp add: run lookup_verdict_def b rws_def)
  show ?thesis using one two by simp
qed

text \<open>
  Claim C6, on the code: a run over one question and a response whose one object has
  an empty issue and an empty rewrite for the question. The batch path does not
  normalise it: the verdict keeps the empty issue and the \<open>Issues\<close> row shows an
  empty text, not \<open>No changes needed.\<close>
\<close>

theorem blank_feedback_left_blank:
  "(case assess_questions (reply_net one_blank_text) example_loads single_slot_config
           example_thinking example_values [example_item 1] of
      (Inl e, calls) \<Rightarrow> False
    | (Inr st, calls) \<Rightarrow>
        map Status (api_metrics_data st) = [''SUCCESS'']
        \<and> map_option verdict_feedback (lookup_verdict (all_batch_results st) (KInt 1) Model_1)
            = Some (JObj [(''question'', JObj [(''issue'', JStr []), (''rewrite'', JStr [])])])
        \<and> results_data st
            = [ResultRow ''claude-3-5-haiku-20241022'' (KInt 1) ''Original'' (JNum 0)
                 [JStr ''Q'', JStr ''A'', JStr ''B'', JStr [], JStr [], JStr []],
               ResultRow ''claude-3-5-haiku-20241022'' (KInt 1) ''Rewrite'' (JNum 0)
                 [JStr [], JStr [], JStr [], JStr [], JStr [], JStr []],
               ResultRow ''claude-3-5-haiku-20241022'' (KInt 1) ''Issues'' (JNum 0)
                 [JStr [], JStr [], JStr [], JStr [], JStr [], JStr []],
               Separator])"
proof -
  define i where "i = batch_info single_slot_config Model_1 (reply one_blank_text)"
  define m where "m = [KInt 1 \<mapsto> no_change_object 1]"
  define br where "br = store_verdicts [example_item 1] Model_1 (reconcile m i) Map.empty"
  define rws where "rws =
     [ResultRow ''claude-3-5-haiku-20241022'' (KInt 1) ''Original'' (JNum 0)
        [JStr ''Q'', JStr ''A'', JStr ''B'', JStr [], JStr [], JStr []],
      ResultRow ''claude-3-5-haiku-20241022'' (KInt 1) ''Rewrite'' (JNum 0)
        [JStr [], JStr [], JStr [], JStr [], JStr [], JStr []],
      ResultRow ''claude-3-5-haiku-20241022'' (KInt 1) ''Issues'' (JNum 0)
        [JStr [], JStr [], JStr [], JStr [], JStr [], JStr []],
      Separator]"
  have l: "example_loads (clean_content one_blank_text) = Some (JArr [JObj (no_change_object 1)])"
    using texts_differ by (simp add: clean_one example_loads_def)
  have mr: "map_results [JObj (no_change_object 1)] Map.empty = Some m"
    by (simp add: no_change_object_def dict_get_def m_def)
  have b: "br (KInt 1) = Some [Model_1 \<mapsto> parsed_verdict (no_change_object 1) i]"
    by (simp add: br_def example_item_def reconcile_def m_def no_change_object_def Let_def)
  have rows: "batch_rows single_slot_config br [example_item 1] = Inr rws"
    using single_slot_tags b
    by (simp add: model_keys_def no_change_rows single_slot_name example_item_def rws_def)
  have ms: "batch_metrics single_slot_config 1 [example_item 1] br model_keys
              = Inr [metrics_of 1 Model_1 (parsed_verdict (no_change_object 1) i)]"
    using single_slot_tags b by (simp add: model_keys_def example_item_def)
  have st: "Status (metrics_of 1 Model_1 (parsed_verdict (no_change_object 1) i)) = ''SUCCESS''"
    by (simp add: metrics_of_def verdict_error_def parsed_verdict_def dict_get_def
        no_change_object_def)
  have k: "verdict_feedback (parsed_verdict (no_change_object 1) i)
             = JObj [(''question'', JObj [(''issue'', JStr []), (''rewrite'', JStr [])])]"
    by (simp add: parsed_verdict_def no_change_object_def verdict_feedback_def dict_get_def)
  have run: "assess_questions (reply_net one_blank_text) example_loads single_slot_config
           example_thinking example_values [example_item 1]
         = (Inr \<lparr>api_metrics_data = [metrics_of 1 Model_1 (parsed_verdict (no_change_object 1) i)],
                  results_data = rws, all_batch_results = br\<rparr>,
            [\<lparr>model = ''anthropic/claude-3-5-haiku-20241022'', messages = [example_item 1],
              thinking_budget = None, reasoning_effort = None\<rparr>])"
    by (rule single_batch_run[OF l mr _ _ _ rows ms]) (simp_all add: br_def i_def)
  show ?thesis
    using st k by (simp add: run lookup_verdict_def b rws_def)
qed

subsection \<open>The single-response parser validates and normalises\<close>

text \<open>
  What the batch parser leaves out, the single-response parser of the same file does:
  it accepts an object only with a flag equal to 0 or 1 and a feedback dict with an
  entry for \<open>question\<close>, it rejects the object with the flag 5, and it turns an
  entry with empty issue and rewrite into the issue \<open>No changes needed.\<close>
\<close>

lemma single_parser_validates:
  assumes "validate_parsed (JObj d) = Inr (Some r)"
  shows "\<exists>flag fb. dict_get d ''change_required'' = Some flag
           \<and> (py_eq_int flag 0 \<or> py_eq_int flag 1)
           \<and> dict_get d ''feedback'' = Some (JObj fb)
           \<and> dict_get fb ''question'' \<noteq> None"
  using assms
  by (auto simp: validate_parsed_def split: option.splits if_splits json.splits sum.splits)

lemma single_parser_rejects_bad_flag:
  "validate_parsed (JObj bad_flag_object) = Inr None"
  by (simp add: validate_parsed_def bad_flag_object_def dict_get_def)

lemma single_parser_normalises:
  "validate_parsed (JObj (no_change_object 1))
     = Inr (Some (JObj [(''questionid'', JNum 1), (''change_required'', JNum 0),
                        (''feedback'',
                         JObj [(''question'',
                                JObj [(''issue'', JStr ''No changes needed.''),
                                      (''rewrite'', JStr [])])])]))"
proof -
  have s: "strip [] = []" by (simp add: strip_def)
  show ?thesis
    by (simp add: validate_parsed_def no_change_object_def dict_get_def normalise_entry_def
        dict_set_def s)
qed

end
